theory Spec2Isabelle
  imports Main "HOL-Library.AList"
begin

section \<open>Go values shared by the three packages\<close>

text \<open>
  A Go call either returns or panics (nil dereference, failed type assertion, index
  out of range). Functions of the sources that can panic return an \<open>outcome\<close>.
\<close>

datatype 'a outcome = Panicked | Returned 'a

text \<open>Values of type \<open>interface{}\<close>, as far as the sources store them.\<close>

datatype iface = IString string | IInt int | IBool bool | INil

subsection \<open>Errors\<close>

text \<open>
  Go's \<open>error\<close> values: \<open>errors.New(text)\<close> builds an \<open>errorString\<close>;
  \<open>fmt.Errorf("...%w", err)\<close> builds a \<open>wrapError\<close> holding the formatted
  message and the wrapped error. A nil error is \<open>None\<close> of \<open>error option\<close>.
\<close>

datatype error = errorString string | wrapError string error

fun Error :: "error \<Rightarrow> string" where
  "Error (errorString s) = s"
| "Error (wrapError msg err) = msg"

fun Unwrap :: "error \<Rightarrow> error option" where
  "Unwrap (errorString s) = None"
| "Unwrap (wrapError msg err) = Some err"

fun errors_Is :: "error \<Rightarrow> error \<Rightarrow> bool" where
  "errors_Is (errorString s) target = (errorString s = target)"
| "errors_Is (wrapError msg err) target = (wrapError msg err = target \<or> errors_Is err target)"

definition errors_New :: "string \<Rightarrow> error" where
  "errors_New txt = errorString txt"

text \<open>\<open>fmt.Errorf(prefix + "%w", err)\<close>: the message is the prefix followed by the
  message of \<open>err\<close>, and \<open>err\<close> is kept as the cause.\<close>

definition fmt_Errorf_w :: "string \<Rightarrow> error \<Rightarrow> error" where
  "fmt_Errorf_w prefix err = wrapError (prefix @ Error err) err"

definition strconv_FormatBool :: "bool \<Rightarrow> string" where
  "strconv_FormatBool b = (if b then ''true'' else ''false'')"

subsection \<open>Spans, contexts and the process-wide state\<close>

record span =
  operationName :: string
  tags :: "(string \<times> iface) list"
  parent :: "string option"

record Context =
  activeSpan :: "string option"
  correlationID :: "string option"

record observation =
  labelValues :: "string list"
  seconds :: nat

text \<open>The message types of the AWS SDK and of the AMQP client, with the fields the
  sources read or write.\<close>

record MessageAttributeValue =
  DataType :: "string option"
  StringValue :: "string option"

record SendMessageInput =
  QueueUrl :: "string option"
  MessageBody :: "string option"
  MessageAttributes :: "(string \<rightharpoonup> MessageAttributeValue) option"

record SendMessageOutput =
  MessageId :: "string option"

record Publishing =
  Headers :: "(string \<rightharpoonup> iface) option"
  Body :: string

text \<open>
  Everything the wrapped calls change outside their arguments: the clock (each reading
  of \<open>time.Now\<close> takes the next value of \<open>clock\<close>), the spans started and finished,
  the log, the three histograms (one list of observations each), and the requests handed
  to the underlying queue client, broker channel and dialler. Durations are kept in clock
  units; the conversion to floating-point seconds is left out.
\<close>

record world =
  clock :: "nat \<Rightarrow> nat"
  reads :: nat
  started :: "string list"
  finished :: "span list"
  logged :: "string list"
  sqs_publishDurationMetrics :: "observation list"
  amqp_publishDurationMetrics :: "observation list"
  opDurationMetrics :: "observation list"
  sqs_sent :: "SendMessageInput list"
  amqp_published :: "(string \<times> string \<times> bool \<times> bool \<times> Publishing) list"
  amqp_dialed :: "string list"

definition time_Now :: "world \<Rightarrow> nat \<times> world" where
  "time_Now w = (clock w (reads w), w\<lparr>reads := Suc (reads w)\<rparr>)"

definition time_Since :: "nat \<Rightarrow> world \<Rightarrow> nat \<times> world" where
  "time_Since start w = (clock w (reads w) - start, w\<lparr>reads := Suc (reads w)\<rparr>)"

definition log_Errorf :: "string \<Rightarrow> error \<Rightarrow> world \<Rightarrow> world" where
  "log_Errorf prefix err w = w\<lparr>logged := logged w @ [prefix @ Error err]\<rparr>"

definition SetTag :: "span \<Rightarrow> string \<Rightarrow> iface \<Rightarrow> span" where
  "SetTag sp k v = sp\<lparr>tags := tags sp @ [(k, v)]\<rparr>"

text \<open>\<open>opentracing.StartSpanFromContext\<close>: a span named \<open>opName\<close>, child of the span
  the context carries if there is one, and the context that carries the new span.\<close>

definition StartSpanFromContext :: "Context \<Rightarrow> string \<Rightarrow> world \<Rightarrow> span \<times> Context \<times> world" where
  "StartSpanFromContext ctx opName w =
     (\<lparr>operationName = opName, tags = [], parent = activeSpan ctx\<rparr>,
      ctx\<lparr>activeSpan := Some opName\<rparr>,
      w\<lparr>started := started w @ [opName]\<rparr>)"

text \<open>
  Modelled from the spec: \<open>trace.ChildSpan\<close>, \<open>trace.SpanComplete\<close> and
  \<open>trace.ComponentOpName\<close> belong to the repository's trace package, which is not among
  the sources. The spec's span lifecycle helper: \<open>startSpan\<close> derives a child span from
  the span of the context, or a root span, and tags it with the component name and the
  resource tags; \<open>completeSpan\<close> tags the span as errored and attaches the error message
  when the error is non-nil, and always finishes the span exactly once; a span name is
  composed as "component.operationName".
\<close>

definition trace_ChildSpan ::
  "Context \<Rightarrow> string \<Rightarrow> string \<Rightarrow> (string \<times> iface) list \<Rightarrow> world \<Rightarrow> span \<times> Context \<times> world" where
  "trace_ChildSpan ctx opName cmp tgs w =
     (let (sp, ctx', w') = StartSpanFromContext ctx opName w
      in (sp\<lparr>tags := (''component'', IString cmp) # tgs\<rparr>, ctx', w'))"

definition trace_SpanComplete :: "span \<Rightarrow> error option \<Rightarrow> world \<Rightarrow> world" where
  "trace_SpanComplete sp err w =
     (case err of
        None \<Rightarrow> w\<lparr>finished := finished w @ [sp]\<rparr>
      | Some e \<Rightarrow>
          w\<lparr>finished := finished w @
               [SetTag (SetTag sp ''error'' (IBool True)) ''error.message'' (IString (Error e))]\<rparr>)"

definition trace_ComponentOpName :: "string \<Rightarrow> string \<Rightarrow> string" where
  "trace_ComponentOpName cmp target = cmp @ ''.'' @ target"

definition SpanKindProducer :: "string \<times> iface" where
  "SpanKindProducer = (''span.kind'', IString ''producer'')"

text \<open>
  The tracer behind a span is an external collaborator. \<open>Inject\<close> gives, for a span,
  the \<open>Set(key, val)\<close> calls the tracer issues on the carrier it is handed, in order,
  and the error it returns.
\<close>

record tracer =
  Inject :: "span \<Rightarrow> (string \<times> string) list \<times> error option"

text \<open>
  Modelled from the spec: the repository's correlation package is not among the sources.
  The spec has one fixed correlation-id header, whose value is the correlation identifier
  sourced from the caller's context, or a generated one if absent. The header name and
  the identifier of a context are taken as parameters.
\<close>

record correlation =
  HeaderID :: string
  IDFromContext :: "Context \<Rightarrow> string"

section \<open>The SQS publisher\<close>

definition sqs_publisherComponent :: string where
  "sqs_publisherComponent = ''sqs-publisher''"

definition attributeDataTypeString :: string where
  "attributeDataTypeString = ''String''"

text \<open>\<open>sqsiface.SQSAPI\<close>, as far as the publisher uses it: \<open>SendMessageWithContext\<close>.
  The interface value may be nil, and an implementation may answer any pair.\<close>

type_synonym SQSAPI = "Context \<Rightarrow> SendMessageInput \<Rightarrow> SendMessageOutput option \<times> error option"

record sqs_Publisher =
  api :: "SQSAPI option"

definition sqs_New :: "SQSAPI option \<Rightarrow> world \<Rightarrow> (sqs_Publisher \<times> error option) \<times> world" where
  "sqs_New a w =
     (case a of
        None \<Rightarrow> ((\<lparr>api = None\<rparr>, Some (errors_New ''missing api'')), w)
      | Some f \<Rightarrow> ((\<lparr>api = Some f\<rparr>, None), w))"

text \<open>\<open>sqsHeadersCarrier\<close> is a \<open>map[string]interface{}\<close>. It is kept as an
  association list with one entry per key, because \<open>injectHeaders\<close> ranges over it.\<close>

type_synonym sqsHeadersCarrier = "(string \<times> iface) list"

definition sqsHeadersCarrier_Set :: "sqsHeadersCarrier \<Rightarrow> string \<Rightarrow> string \<Rightarrow> sqsHeadersCarrier" where
  "sqsHeadersCarrier_Set c key val = AList.update key (IString val) c"

text \<open>The loop of \<open>injectHeaders\<close> over the carrier. The type assertion \<open>v.(string)\<close>
  panics on a value that is not a string. Go visits the keys in no fixed order; every
  key is written once, so the order does not show in the result.\<close>

fun injectHeaders_loop ::
  "sqsHeadersCarrier \<Rightarrow> (string \<rightharpoonup> MessageAttributeValue) \<Rightarrow>
     unit outcome \<times> (string \<rightharpoonup> MessageAttributeValue)" where
  "injectHeaders_loop [] attrs = (Returned (), attrs)"
| "injectHeaders_loop ((k, v) # rest) attrs =
     (case v of
        IString s \<Rightarrow>
          injectHeaders_loop rest
            (attrs(k \<mapsto> \<lparr>DataType = Some attributeDataTypeString, StringValue = Some s\<rparr>))
      | IInt _ \<Rightarrow> (Panicked, attrs)
      | IBool _ \<Rightarrow> (Panicked, attrs)
      | INil \<Rightarrow> (Panicked, attrs))"

definition injectHeaders ::
  "tracer \<Rightarrow> span \<Rightarrow> SendMessageInput \<Rightarrow> error option outcome \<times> SendMessageInput" where
  "injectHeaders tr sp input =
     (let (sets, ierr) = Inject tr sp;
          carrier = fold (\<lambda>(key, val) c. sqsHeadersCarrier_Set c key val) sets []
      in case ierr of
           Some err \<Rightarrow> (Returned (Some (fmt_Errorf_w ''failed to inject tracing headers: '' err)), input)
         | None \<Rightarrow>
             (let attrs = (case MessageAttributes input of None \<Rightarrow> Map.empty | Some m \<Rightarrow> m);
                  (r, attrs') = injectHeaders_loop carrier attrs;
                  input' = input\<lparr>MessageAttributes := Some attrs'\<rparr>
              in case r of Panicked \<Rightarrow> (Panicked, input') | Returned _ \<Rightarrow> (Returned None, input')))"

definition sqs_observePublish :: "span \<Rightarrow> nat \<Rightarrow> string \<Rightarrow> error option \<Rightarrow> world \<Rightarrow> world" where
  "sqs_observePublish sp start queue err w =
     (let w1 = trace_SpanComplete sp err w;
          (d, w2) = time_Since start w1
      in w2\<lparr>sqs_publishDurationMetrics := sqs_publishDurationMetrics w2 @
              [\<lparr>labelValues = [queue, strconv_FormatBool (err \<noteq> None)], seconds = d\<rparr>]\<rparr>)"

text \<open>
  \<open>Publish\<close> gets the message by pointer: the message after the call is part of the
  result, and it is the message the queue client was handed. The result holds the world
  also when the call panics (at \<open>*msg.QueueUrl\<close> on a nil queue URL, at the call through
  a nil \<open>api\<close>, at \<open>out.MessageId\<close> on a nil response).
\<close>

definition sqs_Publish ::
  "sqs_Publisher \<Rightarrow> Context \<Rightarrow> SendMessageInput \<Rightarrow> tracer \<Rightarrow> world \<Rightarrow>
     (string \<times> error option) outcome \<times> SendMessageInput \<times> world" where
  "sqs_Publish p ctx msg tr w =
     (case QueueUrl msg of
        None \<Rightarrow> (Panicked, msg, w)
      | Some queueUrl \<Rightarrow>
         (let (sp, _, w1) = trace_ChildSpan ctx (trace_ComponentOpName sqs_publisherComponent queueUrl)
                              sqs_publisherComponent [SpanKindProducer] w;
              (injected, msg1) = injectHeaders tr sp msg
          in case injected of
               Panicked \<Rightarrow> (Panicked, msg1, w1)
             | Returned ierr \<Rightarrow>
                (let w2 = (case ierr of
                             Some e \<Rightarrow> log_Errorf ''failed to inject trace headers: '' e w1
                           | None \<Rightarrow> w1);
                     (start, w3) = time_Now w2
                 in case api p of
                      None \<Rightarrow> (Panicked, msg1, w3)
                    | Some SendMessageWithContext \<Rightarrow>
                       (let (out, err) = SendMessageWithContext ctx msg1;
                            w4 = w3\<lparr>sqs_sent := sqs_sent w3 @ [msg1]\<rparr>;
                            w5 = sqs_observePublish sp start queueUrl err w4
                        in case err of
                             Some e \<Rightarrow>
                               (Returned ([], Some (fmt_Errorf_w ''failed to publish message: '' e)), msg1, w5)
                           | None \<Rightarrow>
                              (case out of
                                 None \<Rightarrow> (Panicked, msg1, w5)
                               | Some out' \<Rightarrow>
                                  (case MessageId out' of
                                     None \<Rightarrow>
                                       (Returned ([], Some (errors_New
                                          ''tried to publish a message but no message ID returned'')), msg1, w5)
                                   | Some messageID \<Rightarrow> (Returned (messageID, None), msg1, w5)))))))"

section \<open>The AMQP publisher\<close>

definition amqp_publisherComponent :: string where
  "amqp_publisherComponent = ''amqp-publisher''"

text \<open>The AMQP client library, as far as the publisher uses it. Its calls give either
  an error or the handle.\<close>

record amqp_Config =
  Vhost :: string

record amqp_Channel =
  Channel_Publish :: "string \<Rightarrow> string \<Rightarrow> bool \<Rightarrow> bool \<Rightarrow> Publishing \<Rightarrow> error option"
  Channel_Close :: "error option"

record amqp_Connection =
  Connection_Channel :: "error + amqp_Channel"
  Connection_Close :: "error option"

record amqp_lib =
  amqp_Dial :: "string \<Rightarrow> error + amqp_Connection"
  amqp_DialConfig :: "string \<Rightarrow> amqp_Config \<Rightarrow> error + amqp_Connection"

record amqp_Publisher =
  cfg :: "amqp_Config option"
  connection :: "amqp_Connection option"
  channel :: "amqp_Channel option"

text \<open>\<open>OptionFunc\<close> is declared in a file that is not among the sources; \<open>New\<close> calls
  it on the publisher under construction and reads the error it returns.\<close>

type_synonym OptionFunc = "amqp_Publisher \<Rightarrow> error option \<times> amqp_Publisher"

fun amqp_New_options :: "OptionFunc list \<Rightarrow> amqp_Publisher \<Rightarrow> error option \<times> amqp_Publisher" where
  "amqp_New_options [] pub = (None, pub)"
| "amqp_New_options (opt # oo) pub =
     (case opt pub of
        (Some err, pub') \<Rightarrow> (Some err, pub')
      | (None, pub') \<Rightarrow> amqp_New_options oo pub')"

text \<open>\<open>patronerrors.Aggregate\<close> is not among the sources; it is the parameter
  \<open>Aggregate\<close> of the two functions that call it.\<close>

definition amqp_New ::
  "amqp_lib \<Rightarrow> (error option list \<Rightarrow> error option) \<Rightarrow> string \<Rightarrow> OptionFunc list \<Rightarrow> world \<Rightarrow>
     (amqp_Publisher option \<times> error option) \<times> world" where
  "amqp_New lib Aggregate url oo w =
     (if url = [] then ((None, Some (errors_New ''url is required'')), w)
      else
        (case amqp_New_options oo \<lparr>cfg = None, connection = None, channel = None\<rparr> of
           (Some err, _) \<Rightarrow> ((None, Some err), w)
         | (None, pub) \<Rightarrow>
            (let dialled = (case cfg pub of
                              None \<Rightarrow> amqp_Dial lib url
                            | Some c \<Rightarrow> amqp_DialConfig lib url c);
                 w1 = w\<lparr>amqp_dialed := amqp_dialed w @ [url]\<rparr>
             in case dialled of
                  Inl err \<Rightarrow> ((None, Some (fmt_Errorf_w ''failed to open connection: '' err)), w1)
                | Inr conn \<Rightarrow>
                   (case Connection_Channel conn of
                      Inl err \<Rightarrow>
                        ((None, Aggregate [Some (fmt_Errorf_w ''failed to open channel: '' err),
                                           Connection_Close conn]), w1)
                    | Inr ch \<Rightarrow>
                        ((Some (pub\<lparr>connection := Some conn, channel := Some ch\<rparr>), None), w1)))))"

type_synonym amqpHeadersCarrier = "string \<rightharpoonup> iface"

definition amqpHeadersCarrier_Set :: "amqpHeadersCarrier \<Rightarrow> string \<Rightarrow> string \<Rightarrow> amqpHeadersCarrier" where
  "amqpHeadersCarrier_Set c key val = c(key \<mapsto> IString val)"

definition amqp_observePublish :: "span \<Rightarrow> nat \<Rightarrow> string \<Rightarrow> error option \<Rightarrow> world \<Rightarrow> world" where
  "amqp_observePublish sp start exchange err w =
     (let w1 = trace_SpanComplete sp err w;
          (d, w2) = time_Since start w1
      in w2\<lparr>amqp_publishDurationMetrics := amqp_publishDurationMetrics w2 @
              [\<lparr>labelValues = [exchange, strconv_FormatBool (err \<noteq> None)], seconds = d\<rparr>]\<rparr>)"

text \<open>
  \<open>Publish\<close> gets the message by value, and its header table is a map: the carrier
  \<open>c\<close> is that very map, so what the tracer sets is in the headers whether or not
  \<open>Inject\<close> then returns an error. The call panics on a publisher with no channel.
\<close>

definition amqp_Publish ::
  "amqp_Publisher \<Rightarrow> Context \<Rightarrow> string \<Rightarrow> string \<Rightarrow> bool \<Rightarrow> bool \<Rightarrow> Publishing \<Rightarrow>
     tracer \<Rightarrow> correlation \<Rightarrow> world \<Rightarrow> error option outcome \<times> world" where
  "amqp_Publish tc ctx exchange key mandatory immediate msg tr corr w =
     (let (sp, _, w1) = trace_ChildSpan ctx (trace_ComponentOpName amqp_publisherComponent exchange)
                          amqp_publisherComponent [SpanKindProducer, (''exchange'', IString exchange)] w;
          headers = (case Headers msg of None \<Rightarrow> Map.empty | Some h \<Rightarrow> h);
          (sets, ierr) = Inject tr sp;
          c = fold (\<lambda>(k, v) c. amqpHeadersCarrier_Set c k v) sets headers;
          w2 = (case ierr of
                  Some e \<Rightarrow> log_Errorf ''failed to inject tracing headers: '' e w1
                | None \<Rightarrow> w1);
          msg1 = msg\<lparr>Headers := Some (c(HeaderID corr \<mapsto> IString (IDFromContext corr ctx)))\<rparr>;
          (start, w3) = time_Now w2
      in case channel tc of
           None \<Rightarrow> (Panicked, w3)
         | Some ch \<Rightarrow>
            (let err = Channel_Publish ch exchange key mandatory immediate msg1;
                 w4 = w3\<lparr>amqp_published := amqp_published w3 @ [(exchange, key, mandatory, immediate, msg1)]\<rparr>;
                 w5 = amqp_observePublish sp start exchange err w4
             in case err of
                  Some e \<Rightarrow> (Returned (Some (fmt_Errorf_w ''failed to publish message: '' e)), w5)
                | None \<Rightarrow> (Returned None, w5)))"

definition amqp_Close ::
  "(error option list \<Rightarrow> error option) \<Rightarrow> amqp_Publisher \<Rightarrow> error option outcome" where
  "amqp_Close Aggregate tc =
     (case channel tc of
        None \<Rightarrow> Panicked
      | Some ch \<Rightarrow>
         (case connection tc of
            None \<Rightarrow> Panicked
          | Some conn \<Rightarrow> Returned (Aggregate [Channel_Close ch, Connection_Close conn])))"

section \<open>The SQL client\<close>

subsection \<open>Regular expressions\<close>

text \<open>
  Go's regexp package, as far as \<open>parseDSN\<close> uses it. A pattern is the syntax tree the
  package parses it to, with the operators that occur in the pattern of \<open>parseDSN\<close>:
  literals, the classes \<open>.\<close> (any character but newline) and \<open>[^c]\<close>, \<open>^\<close> and \<open>$\<close>
  (begin and end of text: the pattern sets no flags), the greedy and non-greedy star of
  a class, the greedy \<open>?\<close>, concatenation, and numbered (possibly named) capture groups.
  A non-capturing group leaves no node.
\<close>

datatype cclass = AnyCharNotNL | NotChar char

datatype regexp =
    Literal char
  | CharClass cclass
  | BeginText
  | EndText
  | Star bool cclass
  | Quest regexp
  | Concat regexp regexp
  | Capture nat string regexp

fun in_class :: "cclass \<Rightarrow> char \<Rightarrow> bool" where
  "in_class AnyCharNotNL x = (x \<noteq> CHR 0x0A)"
| "in_class (NotChar c) x = (x \<noteq> c)"

text \<open>
  The package documents its choice of match: the one that begins as early as possible in
  the input and, among those, the one a backtracking search finds first. \<open>backtrack\<close> is
  that search: it runs the stack of pending pieces \<open>k\<close> at index \<open>i\<close> on the rest \<open>s\<close>
  of the input, prefers taking an optional piece (and one more repetition of a greedy
  star, one less of a non-greedy one), and gives the index pairs of the capture groups
  of the first way through, or \<open>None\<close> when there is none.
\<close>

datatype frame = Run regexp | EndCapture nat nat

type_synonym caps = "nat \<rightharpoonup> nat \<times> nat"

fun weight :: "regexp \<Rightarrow> nat" where
  "weight (Quest r) = Suc (weight r)"
| "weight (Concat a b) = Suc (weight a + weight b)"
| "weight (Capture n nm r) = Suc (Suc (weight r))"
| "weight _ = 1"

fun frame_weight :: "frame \<Rightarrow> nat" where
  "frame_weight (Run r) = weight r"
| "frame_weight (EndCapture n lo) = 1"

function (sequential) backtrack :: "frame list \<Rightarrow> nat \<Rightarrow> string \<Rightarrow> caps \<Rightarrow> caps option" where
  "backtrack [] i s cs = Some cs"
| "backtrack (EndCapture n lo # k) i s cs = backtrack k i s (cs(n \<mapsto> (lo, i)))"
| "backtrack (Run (Literal c) # k) i [] cs = None"
| "backtrack (Run (Literal c) # k) i (x # xs) cs =
     (if x = c then backtrack k (Suc i) xs cs else None)"
| "backtrack (Run (CharClass cl) # k) i [] cs = None"
| "backtrack (Run (CharClass cl) # k) i (x # xs) cs =
     (if in_class cl x then backtrack k (Suc i) xs cs else None)"
| "backtrack (Run BeginText # k) i s cs = (if i = 0 then backtrack k i s cs else None)"
| "backtrack (Run EndText # k) i s cs = (if s = [] then backtrack k i s cs else None)"
| "backtrack (Run (Concat a b) # k) i s cs = backtrack (Run a # Run b # k) i s cs"
| "backtrack (Run (Capture n nm r) # k) i s cs = backtrack (Run r # EndCapture n i # k) i s cs"
| "backtrack (Run (Quest r) # k) i s cs =
     (case backtrack (Run r # k) i s cs of
        Some m \<Rightarrow> Some m
      | None \<Rightarrow> backtrack k i s cs)"
| "backtrack (Run (Star greedy cl) # k) i [] cs = backtrack k i [] cs"
| "backtrack (Run (Star greedy cl) # k) i (x # xs) cs =
     (if greedy then
        (case (if in_class cl x then backtrack (Run (Star greedy cl) # k) (Suc i) xs cs else None) of
           Some m \<Rightarrow> Some m
         | None \<Rightarrow> backtrack k i (x # xs) cs)
      else
        (case backtrack k i (x # xs) cs of
           Some m \<Rightarrow> Some m
         | None \<Rightarrow>
             if in_class cl x then backtrack (Run (Star greedy cl) # k) (Suc i) xs cs else None))"
  by pat_completeness auto
termination
  by (relation "measures [\<lambda>(k, i, s, cs). length s, \<lambda>(k, i, s, cs). sum_list (map frame_weight k)]")
     auto

text \<open>The leftmost match: the search is tried at each index of the input in turn.
  Group 0 is the whole match.\<close>

fun search :: "regexp \<Rightarrow> nat \<Rightarrow> string \<Rightarrow> caps option" where
  "search re i [] = backtrack [Run (Capture 0 [] re)] i [] Map.empty"
| "search re i (x # xs) =
     (case backtrack [Run (Capture 0 [] re)] i (x # xs) Map.empty of
        Some m \<Rightarrow> Some m
      | None \<Rightarrow> search re (Suc i) xs)"

fun capNames :: "regexp \<Rightarrow> string list" where
  "capNames (Capture n nm r) = nm # capNames r"
| "capNames (Quest r) = capNames r"
| "capNames (Concat a b) = capNames a @ capNames b"
| "capNames _ = []"

text \<open>\<open>SubexpNames\<close>: the names of the groups, by number; group 0 and the unnamed
  groups have the empty name.\<close>

definition SubexpNames :: "regexp \<Rightarrow> string list" where
  "SubexpNames re = [] # capNames re"

text \<open>\<open>FindStringSubmatch\<close>: \<open>None\<close> is the nil slice of no match; otherwise the text
  of each group, empty for a group that took no part in the match.\<close>

definition FindStringSubmatch :: "regexp \<Rightarrow> string \<Rightarrow> string list option" where
  "FindStringSubmatch re s =
     (case search re 0 s of
        None \<Rightarrow> None
      | Some cs \<Rightarrow>
          Some (map (\<lambda>n. case cs n of None \<Rightarrow> [] | Some (lo, hi) \<Rightarrow> take (hi - lo) (drop lo s))
                    [0 ..< length (SubexpNames re)]))"

subsection \<open>parseDSN\<close>

record DSNInfo =
  Driver :: string
  DBName :: string
  Address :: string
  User :: string
  Protocol :: string

text \<open>The pattern of \<open>parseDSN\<close>, piece by piece as the source writes it:

  \<^verbatim>\<open>^(?P<driver>.*:\/\/)?(?:(?P<username>.*?)(?::(.*))?@)?\<close>

  \<^verbatim>\<open>(?:(?P<protocol>[^\(]*)(?:\((?P<address>[^\)]*)\))?)?\<close>

  \<^verbatim>\<open>\/(?P<dbname>.*?)\<close>

  \<^verbatim>\<open>(?:\?(?P<params>[^\?]*))?$\<close>\<close>

definition dsnPattern :: regexp where
  "dsnPattern =
     Concat BeginText
    (Concat (Quest (Capture 1 ''driver''
               (Concat (Star True AnyCharNotNL)
               (Concat (Literal (CHR '':'')) (Concat (Literal (CHR ''/'')) (Literal (CHR ''/'')))))))
    (Concat (Quest (Concat (Capture 2 ''username'' (Star False AnyCharNotNL))
                   (Concat (Quest (Concat (Literal (CHR '':'')) (Capture 3 [] (Star True AnyCharNotNL))))
                           (Literal (CHR ''@'')))))
    (Concat (Quest (Concat (Capture 4 ''protocol'' (Star True (NotChar (CHR ''(''))))
                           (Quest (Concat (Literal (CHR ''(''))
                                  (Concat (Capture 5 ''address'' (Star True (NotChar (CHR '')''))))
                                          (Literal (CHR '')'')))))))
    (Concat (Literal (CHR ''/''))
    (Concat (Capture 6 ''dbname'' (Star False AnyCharNotNL))
    (Concat (Quest (Concat (Literal (CHR ''?'')) (Capture 7 ''params'' (Star True (NotChar (CHR ''?''))))))
            EndText))))))"

text \<open>The \<open>switch\<close> in the loop of \<open>parseDSN\<close>.\<close>

definition parseDSN_switch :: "string \<Rightarrow> string \<Rightarrow> DSNInfo \<Rightarrow> DSNInfo" where
  "parseDSN_switch field match res =
     (if field = ''driver'' then res\<lparr>Driver := match\<rparr>
      else if field = ''username'' then res\<lparr>User := match\<rparr>
      else if field = ''protocol'' then res\<lparr>Protocol := match\<rparr>
      else if field = ''address'' then res\<lparr>Address := match\<rparr>
      else if field = ''dbname'' then res\<lparr>DBName := match\<rparr>
      else res)"

text \<open>The loop over \<open>matches\<close>; \<open>fields[i]\<close> panics when \<open>i\<close> is out of range.\<close>

fun parseDSN_loop :: "string list \<Rightarrow> nat \<Rightarrow> string list \<Rightarrow> DSNInfo \<Rightarrow> DSNInfo outcome" where
  "parseDSN_loop fields' i [] res = Returned res"
| "parseDSN_loop fields' i (match # matches) res =
     (if i < length fields'
      then parseDSN_loop fields' (Suc i) matches (parseDSN_switch (fields' ! i) match res)
      else Panicked)"

definition parseDSN :: "string \<Rightarrow> DSNInfo outcome" where
  "parseDSN dsn =
     (let res = \<lparr>Driver = [], DBName = [], Address = [], User = [], Protocol = []\<rparr>;
          matches = FindStringSubmatch dsnPattern dsn;
          fields' = SubexpNames dsnPattern
      in case matches of
           None \<Rightarrow> Returned res
         | Some ms \<Rightarrow> parseDSN_loop fields' 0 ms res)"

subsection \<open>The handles of database/sql\<close>

text \<open>
  The handles of the standard library that the facades wrap, each with the methods the
  facades call. A call of the library gives either an error or its value (\<open>Inl\<close> the
  error); \<open>value_of\<close> and \<open>error_of\<close> are the two results of the Go call. Driver-side
  values are opaque and named by numbers.
\<close>

type_synonym sql_Result = nat
type_synonym sql_Rows = nat
type_synonym sql_Row = nat
type_synonym driver_Driver = nat
type_synonym driver_Connector = nat
type_synonym sql_DBStats = nat

record sql_TxOptions =
  Isolation :: int
  ReadOnly :: bool

definition value_of :: "error + 'a \<Rightarrow> 'a option" where
  "value_of ans = (case ans of Inl _ \<Rightarrow> None | Inr v \<Rightarrow> Some v)"

definition error_of :: "error + 'a \<Rightarrow> error option" where
  "error_of ans = (case ans of Inl e \<Rightarrow> Some e | Inr _ \<Rightarrow> None)"

record sql_Stmt =
  sql_Stmt_Close :: "error option"
  sql_Stmt_ExecContext :: "Context \<Rightarrow> iface list \<Rightarrow> error + sql_Result"
  sql_Stmt_QueryContext :: "Context \<Rightarrow> iface list \<Rightarrow> error + sql_Rows"
  sql_Stmt_QueryRowContext :: "Context \<Rightarrow> iface list \<Rightarrow> sql_Row"

record sql_Tx =
  sql_Tx_Commit :: "error option"
  sql_Tx_ExecContext :: "Context \<Rightarrow> string \<Rightarrow> iface list \<Rightarrow> error + sql_Result"
  sql_Tx_PrepareContext :: "Context \<Rightarrow> string \<Rightarrow> error + sql_Stmt"
  sql_Tx_QueryContext :: "Context \<Rightarrow> string \<Rightarrow> iface list \<Rightarrow> error + sql_Rows"
  sql_Tx_QueryRowContext :: "Context \<Rightarrow> string \<Rightarrow> iface list \<Rightarrow> sql_Row"
  sql_Tx_Rollback :: "error option"
  sql_Tx_StmtContext :: "Context \<Rightarrow> sql_Stmt \<Rightarrow> sql_Stmt"

record sql_Conn =
  sql_Conn_BeginTx :: "Context \<Rightarrow> sql_TxOptions option \<Rightarrow> error + sql_Tx"
  sql_Conn_Close :: "error option"
  sql_Conn_ExecContext :: "Context \<Rightarrow> string \<Rightarrow> iface list \<Rightarrow> error + sql_Result"
  sql_Conn_PingContext :: "Context \<Rightarrow> error option"
  sql_Conn_PrepareContext :: "Context \<Rightarrow> string \<Rightarrow> error + sql_Stmt"
  sql_Conn_QueryContext :: "Context \<Rightarrow> string \<Rightarrow> iface list \<Rightarrow> error + sql_Rows"
  sql_Conn_QueryRowContext :: "Context \<Rightarrow> string \<Rightarrow> iface list \<Rightarrow> sql_Row"

record sql_DB =
  sql_DB_BeginTx :: "Context \<Rightarrow> sql_TxOptions option \<Rightarrow> error + sql_Tx"
  sql_DB_Close :: "error option"
  sql_DB_Conn :: "Context \<Rightarrow> error + sql_Conn"
  sql_DB_Driver :: driver_Driver
  sql_DB_ExecContext :: "Context \<Rightarrow> string \<Rightarrow> iface list \<Rightarrow> error + sql_Result"
  sql_DB_PingContext :: "Context \<Rightarrow> error option"
  sql_DB_PrepareContext :: "Context \<Rightarrow> string \<Rightarrow> error + sql_Stmt"
  sql_DB_QueryContext :: "Context \<Rightarrow> string \<Rightarrow> iface list \<Rightarrow> error + sql_Rows"
  sql_DB_QueryRowContext :: "Context \<Rightarrow> string \<Rightarrow> iface list \<Rightarrow> sql_Row"
  sql_DB_Stats :: sql_DBStats

subsection \<open>The facades\<close>

definition component :: string where
  "component = ''sql''"

definition dbtype :: string where
  "dbtype = ''RDBMS''"

text \<open>
  Modelled from the spec: \<open>trace.VersionTag\<close> and \<open>trace.Version\<close> are constants of the
  repository's trace package, which is not among the sources; the spec has a
  library-version tag among the tags of a SQL span.
\<close>

definition trace_VersionTag :: string where
  "trace_VersionTag = ''version''"

definition trace_Version :: string where
  "trace_Version = ''dev''"

text \<open>\<open>connInfo\<close> is embedded in the four facade types: they are its extensions, and a
  composite literal that names no \<open>connInfo\<close> leaves both fields empty.\<close>

record connInfo =
  instance' :: string
  user :: string

record Conn = connInfo +
  conn :: sql_Conn

record DB = connInfo +
  db :: sql_DB

record Stmt = connInfo +
  query :: string
  stmt :: sql_Stmt

record Tx = connInfo +
  tx :: sql_Tx

definition startSpan ::
  "'a connInfo_scheme \<Rightarrow> Context \<Rightarrow> string \<Rightarrow> string \<Rightarrow> (string \<times> iface) list \<Rightarrow> world \<Rightarrow>
     span \<times> Context \<times> world" where
  "startSpan c ctx opName statement tgs w =
     (let (sp, ctx', w') = StartSpanFromContext ctx opName w;
          sp1 = SetTag sp ''component'' (IString component);
          sp2 = SetTag sp1 ''db.type'' (IString dbtype);
          sp3 = SetTag sp2 ''db.instance'' (IString (instance' c));
          sp4 = SetTag sp3 ''db.user'' (IString (user c));
          sp5 = SetTag sp4 ''db.statement'' (IString statement);
          sp6 = fold (\<lambda>(k, v) sp. SetTag sp k v) tgs sp5;
          sp7 = SetTag sp6 trace_VersionTag (IString trace_Version)
      in (sp7, ctx', w'))"

definition observeDuration :: "span \<Rightarrow> nat \<Rightarrow> string \<Rightarrow> error option \<Rightarrow> world \<Rightarrow> world" where
  "observeDuration sp start op err w =
     (let w1 = trace_SpanComplete sp err w;
          (d, w2) = time_Since start w1
      in w2\<lparr>opDurationMetrics := opDurationMetrics w2 @
              [\<lparr>labelValues = [op, strconv_FormatBool (err \<noteq> None)], seconds = d\<rparr>]\<rparr>)"

text \<open>The methods of \<open>Conn\<close>.\<close>

definition Conn_BeginTx ::
  "Conn \<Rightarrow> Context \<Rightarrow> sql_TxOptions option \<Rightarrow> world \<Rightarrow> (Tx option \<times> error option) \<times> world" where
  "Conn_BeginTx c ctx opts w =
     (let op = ''conn.BeginTx'';
          (sp, _, w1) = startSpan c ctx op [] [] w;
          (start, w2) = time_Now w1;
          ans = sql_Conn_BeginTx (conn c) ctx opts;
          w3 = observeDuration sp start op (error_of ans) w2
      in case ans of Inl err \<Rightarrow> ((None, Some err), w3) | Inr r \<Rightarrow> ((Some \<lparr>instance' = [], user = [], tx = r\<rparr>, None), w3))"

definition Conn_Close ::
  "Conn \<Rightarrow> Context \<Rightarrow> world \<Rightarrow> error option \<times> world" where
  "Conn_Close c ctx w =
     (let op = ''conn.Close'';
          (sp, _, w1) = startSpan c ctx op [] [] w;
          (start, w2) = time_Now w1;
          ans = sql_Conn_Close (conn c);
          w3 = observeDuration sp start op (ans) w2
      in (ans, w3))"

definition Conn_Exec ::
  "Conn \<Rightarrow> Context \<Rightarrow> string \<Rightarrow> iface list \<Rightarrow> world \<Rightarrow> (sql_Result option \<times> error option) \<times> world" where
  "Conn_Exec c ctx query' args w =
     (let op = ''conn.Exec'';
          (sp, _, w1) = startSpan c ctx op query' [] w;
          (start, w2) = time_Now w1;
          ans = sql_Conn_ExecContext (conn c) ctx query' args;
          w3 = observeDuration sp start op (error_of ans) w2
      in ((value_of ans, error_of ans), w3))"

definition Conn_Ping ::
  "Conn \<Rightarrow> Context \<Rightarrow> world \<Rightarrow> error option \<times> world" where
  "Conn_Ping c ctx w =
     (let op = ''conn.Ping'';
          (sp, _, w1) = startSpan c ctx op [] [] w;
          (start, w2) = time_Now w1;
          ans = sql_Conn_PingContext (conn c) ctx;
          w3 = observeDuration sp start op (ans) w2
      in (ans, w3))"

definition Conn_Prepare ::
  "Conn \<Rightarrow> Context \<Rightarrow> string \<Rightarrow> world \<Rightarrow> (Stmt option \<times> error option) \<times> world" where
  "Conn_Prepare c ctx query' w =
     (let op = ''conn.Prepare'';
          (sp, _, w1) = startSpan c ctx op query' [] w;
          (start, w2) = time_Now w1;
          ans = sql_Conn_PrepareContext (conn c) ctx query';
          w3 = observeDuration sp start op (error_of ans) w2
      in case ans of Inl err \<Rightarrow> ((None, Some err), w3) | Inr r \<Rightarrow> ((Some \<lparr>instance' = [], user = [], query = [], stmt = r\<rparr>, None), w3))"

definition Conn_Query ::
  "Conn \<Rightarrow> Context \<Rightarrow> string \<Rightarrow> iface list \<Rightarrow> world \<Rightarrow> (sql_Rows option \<times> error option) \<times> world" where
  "Conn_Query c ctx query' args w =
     (let op = ''conn.Query'';
          (sp, _, w1) = startSpan c ctx op query' [] w;
          (start, w2) = time_Now w1;
          ans = sql_Conn_QueryContext (conn c) ctx query' args;
          w3 = observeDuration sp start op (error_of ans) w2
      in case ans of Inl err \<Rightarrow> ((None, Some err), w3) | Inr r \<Rightarrow> ((Some r, None), w3))"

definition Conn_QueryRow ::
  "Conn \<Rightarrow> Context \<Rightarrow> string \<Rightarrow> iface list \<Rightarrow> world \<Rightarrow> sql_Row \<times> world" where
  "Conn_QueryRow c ctx query' args w =
     (let op = ''conn.QueryRow'';
          (sp, _, w1) = startSpan c ctx op query' [] w;
          (start, w2) = time_Now w1;
          ans = sql_Conn_QueryRowContext (conn c) ctx query' args;
          w3 = observeDuration sp start op (None) w2
      in (ans, w3))"

text \<open>The constructors of \<open>DB\<close>. \<open>sql.Open\<close> and \<open>sql.OpenDB\<close> of the standard library
  are parameters.\<close>

definition Open ::
  "(string \<Rightarrow> string \<Rightarrow> error + sql_DB) \<Rightarrow> string \<Rightarrow> string \<Rightarrow> (DB option \<times> error option) outcome" where
  "Open sql_Open driverName dataSourceName =
     (case sql_Open driverName dataSourceName of
        Inl err \<Rightarrow> Returned (None, Some err)
      | Inr d \<Rightarrow>
         (case parseDSN dataSourceName of
            Panicked \<Rightarrow> Panicked
          | Returned info \<Rightarrow>
              Returned (Some \<lparr>instance' = DBName info, user = User info, db = d\<rparr>, None)))"

definition OpenDB :: "(driver_Connector \<Rightarrow> sql_DB) \<Rightarrow> driver_Connector \<Rightarrow> DB" where
  "OpenDB sql_OpenDB c = \<lparr>instance' = [], user = [], db = sql_OpenDB c\<rparr>"

definition FromDB :: "sql_DB \<Rightarrow> DB" where
  "FromDB d = \<lparr>instance' = [], user = [], db = d\<rparr>"

definition DB_DB :: "DB \<Rightarrow> sql_DB" where
  "DB_DB d = db d"

text \<open>The methods of \<open>DB\<close>. The three setters of the connection pool call the handle
  directly, with no span and no metric, and are left out.\<close>

definition DB_BeginTx ::
  "DB \<Rightarrow> Context \<Rightarrow> sql_TxOptions option \<Rightarrow> world \<Rightarrow> (Tx option \<times> error option) \<times> world" where
  "DB_BeginTx d ctx opts w =
     (let op = ''db.BeginTx'';
          (sp, _, w1) = startSpan d ctx op [] [] w;
          (start, w2) = time_Now w1;
          ans = sql_DB_BeginTx (db d) ctx opts;
          w3 = observeDuration sp start op (error_of ans) w2
      in case ans of Inl err \<Rightarrow> ((None, Some err), w3) | Inr r \<Rightarrow> ((Some \<lparr>instance' = instance' d, user = user d, tx = r\<rparr>, None), w3))"

definition DB_Close ::
  "DB \<Rightarrow> Context \<Rightarrow> world \<Rightarrow> error option \<times> world" where
  "DB_Close d ctx w =
     (let op = ''db.Close'';
          (sp, _, w1) = startSpan d ctx op [] [] w;
          (start, w2) = time_Now w1;
          ans = sql_DB_Close (db d);
          w3 = observeDuration sp start op (ans) w2
      in (ans, w3))"

definition DB_Conn ::
  "DB \<Rightarrow> Context \<Rightarrow> world \<Rightarrow> (Conn option \<times> error option) \<times> world" where
  "DB_Conn d ctx w =
     (let op = ''db.Conn'';
          (sp, _, w1) = startSpan d ctx op [] [] w;
          (start, w2) = time_Now w1;
          ans = sql_DB_Conn (db d) ctx;
          w3 = observeDuration sp start op (error_of ans) w2
      in case ans of Inl err \<Rightarrow> ((None, Some err), w3) | Inr r \<Rightarrow> ((Some \<lparr>instance' = instance' d, user = user d, conn = r\<rparr>, None), w3))"

definition DB_Driver ::
  "DB \<Rightarrow> Context \<Rightarrow> world \<Rightarrow> driver_Driver \<times> world" where
  "DB_Driver d ctx w =
     (let op = ''db.Driver'';
          (sp, _, w1) = startSpan d ctx op [] [] w;
          (start, w2) = time_Now w1;
          ans = sql_DB_Driver (db d);
          w3 = observeDuration sp start op (None) w2
      in (ans, w3))"

definition DB_Exec ::
  "DB \<Rightarrow> Context \<Rightarrow> string \<Rightarrow> iface list \<Rightarrow> world \<Rightarrow> (sql_Result option \<times> error option) \<times> world" where
  "DB_Exec d ctx query' args w =
     (let op = ''db.Exec'';
          (sp, _, w1) = startSpan d ctx op query' [] w;
          (start, w2) = time_Now w1;
          ans = sql_DB_ExecContext (db d) ctx query' args;
          w3 = observeDuration sp start op (error_of ans) w2
      in case ans of Inl err \<Rightarrow> ((None, Some err), w3) | Inr r \<Rightarrow> ((Some r, None), w3))"

definition DB_Ping ::
  "DB \<Rightarrow> Context \<Rightarrow> world \<Rightarrow> error option \<times> world" where
  "DB_Ping d ctx w =
     (let op = ''db.Ping'';
          (sp, _, w1) = startSpan d ctx op [] [] w;
          (start, w2) = time_Now w1;
          ans = sql_DB_PingContext (db d) ctx;
          w3 = observeDuration sp start op (ans) w2
      in (ans, w3))"

definition DB_Prepare ::
  "DB \<Rightarrow> Context \<Rightarrow> string \<Rightarrow> world \<Rightarrow> (Stmt option \<times> error option) \<times> world" where
  "DB_Prepare d ctx query' w =
     (let op = ''db.Prepare'';
          (sp, _, w1) = startSpan d ctx op query' [] w;
          (start, w2) = time_Now w1;
          ans = sql_DB_PrepareContext (db d) ctx query';
          w3 = observeDuration sp start op (error_of ans) w2
      in case ans of Inl err \<Rightarrow> ((None, Some err), w3) | Inr r \<Rightarrow> ((Some \<lparr>instance' = instance' d, user = user d, query = query', stmt = r\<rparr>, None), w3))"

definition DB_Query ::
  "DB \<Rightarrow> Context \<Rightarrow> string \<Rightarrow> iface list \<Rightarrow> world \<Rightarrow> (sql_Rows option \<times> error option) \<times> world" where
  "DB_Query d ctx query' args w =
     (let op = ''db.Query'';
          (sp, _, w1) = startSpan d ctx op query' [] w;
          (start, w2) = time_Now w1;
          ans = sql_DB_QueryContext (db d) ctx query' args;
          w3 = observeDuration sp start op (error_of ans) w2
      in case ans of Inl err \<Rightarrow> ((None, Some err), w3) | Inr r \<Rightarrow> ((Some r, None), w3))"

definition DB_QueryRow ::
  "DB \<Rightarrow> Context \<Rightarrow> string \<Rightarrow> iface list \<Rightarrow> world \<Rightarrow> sql_Row \<times> world" where
  "DB_QueryRow d ctx query' args w =
     (let op = ''db.QueryRow'';
          (sp, _, w1) = startSpan d ctx op query' [] w;
          (start, w2) = time_Now w1;
          ans = sql_DB_QueryRowContext (db d) ctx query' args;
          w3 = observeDuration sp start op (None) w2
      in (ans, w3))"

definition DB_Stats ::
  "DB \<Rightarrow> Context \<Rightarrow> world \<Rightarrow> sql_DBStats \<times> world" where
  "DB_Stats d ctx w =
     (let op = ''db.Stats'';
          (sp, _, w1) = startSpan d ctx op [] [] w;
          (start, w2) = time_Now w1;
          ans = sql_DB_Stats (db d);
          w3 = observeDuration sp start op (None) w2
      in (ans, w3))"

text \<open>The methods of \<open>Stmt\<close>.\<close>

definition Stmt_Close ::
  "Stmt \<Rightarrow> Context \<Rightarrow> world \<Rightarrow> error option \<times> world" where
  "Stmt_Close s ctx w =
     (let op = ''stmt.Close'';
          (sp, _, w1) = startSpan s ctx op [] [] w;
          (start, w2) = time_Now w1;
          ans = sql_Stmt_Close (stmt s);
          w3 = observeDuration sp start op (ans) w2
      in (ans, w3))"

definition Stmt_Exec ::
  "Stmt \<Rightarrow> Context \<Rightarrow> iface list \<Rightarrow> world \<Rightarrow> (sql_Result option \<times> error option) \<times> world" where
  "Stmt_Exec s ctx args w =
     (let op = ''stmt.Exec'';
          (sp, _, w1) = startSpan s ctx op (query s) [] w;
          (start, w2) = time_Now w1;
          ans = sql_Stmt_ExecContext (stmt s) ctx args;
          w3 = observeDuration sp start op (error_of ans) w2
      in case ans of Inl err \<Rightarrow> ((None, Some err), w3) | Inr r \<Rightarrow> ((Some r, None), w3))"

definition Stmt_Query ::
  "Stmt \<Rightarrow> Context \<Rightarrow> iface list \<Rightarrow> world \<Rightarrow> (sql_Rows option \<times> error option) \<times> world" where
  "Stmt_Query s ctx args w =
     (let op = ''stmt.Query'';
          (sp, _, w1) = startSpan s ctx op (query s) [] w;
          (start, w2) = time_Now w1;
          ans = sql_Stmt_QueryContext (stmt s) ctx args;
          w3 = observeDuration sp start op (error_of ans) w2
      in case ans of Inl err \<Rightarrow> ((None, Some err), w3) | Inr r \<Rightarrow> ((Some r, None), w3))"

definition Stmt_QueryRow ::
  "Stmt \<Rightarrow> Context \<Rightarrow> iface list \<Rightarrow> world \<Rightarrow> sql_Row \<times> world" where
  "Stmt_QueryRow s ctx args w =
     (let op = ''stmt.QueryRow'';
          (sp, _, w1) = startSpan s ctx op (query s) [] w;
          (start, w2) = time_Now w1;
          ans = sql_Stmt_QueryRowContext (stmt s) ctx args;
          w3 = observeDuration sp start op (None) w2
      in (ans, w3))"

text \<open>The methods of \<open>Tx\<close>.\<close>

definition Tx_Commit ::
  "Tx \<Rightarrow> Context \<Rightarrow> world \<Rightarrow> error option \<times> world" where
  "Tx_Commit t ctx w =
     (let op = ''tx.Commit'';
          (sp, _, w1) = startSpan t ctx op [] [] w;
          (start, w2) = time_Now w1;
          ans = sql_Tx_Commit (tx t);
          w3 = observeDuration sp start op (ans) w2
      in (ans, w3))"

definition Tx_Exec ::
  "Tx \<Rightarrow> Context \<Rightarrow> string \<Rightarrow> iface list \<Rightarrow> world \<Rightarrow> (sql_Result option \<times> error option) \<times> world" where
  "Tx_Exec t ctx query' args w =
     (let op = ''tx.Exec'';
          (sp, _, w1) = startSpan t ctx op query' [] w;
          (start, w2) = time_Now w1;
          ans = sql_Tx_ExecContext (tx t) ctx query' args;
          w3 = observeDuration sp start op (error_of ans) w2
      in case ans of Inl err \<Rightarrow> ((None, Some err), w3) | Inr r \<Rightarrow> ((Some r, None), w3))"

definition Tx_Prepare ::
  "Tx \<Rightarrow> Context \<Rightarrow> string \<Rightarrow> world \<Rightarrow> (Stmt option \<times> error option) \<times> world" where
  "Tx_Prepare t ctx query' w =
     (let op = ''tx.Prepare'';
          (sp, _, w1) = startSpan t ctx op query' [] w;
          (start, w2) = time_Now w1;
          ans = sql_Tx_PrepareContext (tx t) ctx query';
          w3 = observeDuration sp start op (error_of ans) w2
      in case ans of Inl err \<Rightarrow> ((None, Some err), w3) | Inr r \<Rightarrow> ((Some \<lparr>instance' = [], user = [], query = [], stmt = r\<rparr>, None), w3))"

definition Tx_Query ::
  "Tx \<Rightarrow> Context \<Rightarrow> string \<Rightarrow> iface list \<Rightarrow> world \<Rightarrow> (sql_Rows option \<times> error option) \<times> world" where
  "Tx_Query t ctx query' args w =
     (let op = ''tx.Query'';
          (sp, _, w1) = startSpan t ctx op query' [] w;
          (start, w2) = time_Now w1;
          ans = sql_Tx_QueryContext (tx t) ctx query' args;
          w3 = observeDuration sp start op (error_of ans) w2
      in case ans of Inl err \<Rightarrow> ((None, Some err), w3) | Inr r \<Rightarrow> ((Some r, None), w3))"

definition Tx_QueryRow ::
  "Tx \<Rightarrow> Context \<Rightarrow> string \<Rightarrow> iface list \<Rightarrow> world \<Rightarrow> sql_Row \<times> world" where
  "Tx_QueryRow t ctx query' args w =
     (let op = ''tx.QueryRow'';
          (sp, _, w1) = startSpan t ctx op query' [] w;
          (start, w2) = time_Now w1;
          ans = sql_Tx_QueryRowContext (tx t) ctx query' args;
          w3 = observeDuration sp start op (None) w2
      in (ans, w3))"

definition Tx_Rollback ::
  "Tx \<Rightarrow> Context \<Rightarrow> world \<Rightarrow> error option \<times> world" where
  "Tx_Rollback t ctx w =
     (let op = ''tx.Rollback'';
          (sp, _, w1) = startSpan t ctx op [] [] w;
          (start, w2) = time_Now w1;
          ans = sql_Tx_Rollback (tx t);
          w3 = observeDuration sp start op (ans) w2
      in (ans, w3))"

definition Tx_Stmt ::
  "Tx \<Rightarrow> Context \<Rightarrow> Stmt \<Rightarrow> world \<Rightarrow> Stmt \<times> world" where
  "Tx_Stmt t ctx s w =
     (let op = ''tx.Stmt'';
          (sp, _, w1) = startSpan t ctx op (query s) [] w;
          (start, w2) = time_Now w1;
          st = \<lparr>instance' = instance' t, user = user t, query = query s,
                stmt = sql_Tx_StmtContext (tx t) ctx (stmt s)\<rparr>;
          w3 = observeDuration sp start op (None) w2
      in (st, w3))"

section \<open>Example inputs\<close>

text \<open>Concrete collaborators and requests, at which the properties below are evaluated.\<close>

definition world0 :: world where
  "world0 = \<lparr>clock = (\<lambda>n. 10 * n), reads = 0, started = [], finished = [], logged = [],
              sqs_publishDurationMetrics = [], amqp_publishDurationMetrics = [],
              opDurationMetrics = [], sqs_sent = [], amqp_published = [], amqp_dialed = []\<rparr>"

definition ctx0 :: Context where
  "ctx0 = \<lparr>activeSpan = None, correlationID = Some ''cid-1''\<rparr>"

definition tracer_ok :: tracer where
  "tracer_ok = \<lparr>Inject = (\<lambda>sp. ([(''trace-id'', ''1:2:3:1'')], None))\<rparr>"

definition tracer_failing :: tracer where
  "tracer_failing = \<lparr>Inject = (\<lambda>sp. ([], Some (errorString ''unsupported format'')))\<rparr>"

definition tracer_colliding :: tracer where
  "tracer_colliding = \<lparr>Inject = (\<lambda>sp. ([(''X-Correlation-Id'', ''from-tracer'')], None))\<rparr>"

definition correlation0 :: correlation where
  "correlation0 =
     \<lparr>HeaderID = ''X-Correlation-Id'',
      IDFromContext = (\<lambda>ctx. case correlationID ctx of None \<Rightarrow> ''generated'' | Some i \<Rightarrow> i)\<rparr>"

definition msg_q1 :: SendMessageInput where
  "msg_q1 = \<lparr>QueueUrl = Some ''q1'', MessageBody = Some ''hello'', MessageAttributes = None\<rparr>"

definition api_ok :: SQSAPI where
  "api_ok = (\<lambda>ctx msg. (Some \<lparr>MessageId = Some ''abc-123''\<rparr>, None))"

definition api_failing :: SQSAPI where
  "api_failing = (\<lambda>ctx msg. (None, Some (errorString ''queue does not exist'')))"

definition api_no_id :: SQSAPI where
  "api_no_id = (\<lambda>ctx msg. (Some \<lparr>MessageId = None\<rparr>, None))"

definition publishing0 :: Publishing where
  "publishing0 = \<lparr>Headers = None, Body = ''hello''\<rparr>"

definition channel_ok :: amqp_Channel where
  "channel_ok = \<lparr>Channel_Publish = (\<lambda>exchange key mandatory immediate msg. None),
                  Channel_Close = None\<rparr>"

definition channel_failing :: amqp_Channel where
  "channel_failing =
     \<lparr>Channel_Publish = (\<lambda>exchange key mandatory immediate msg. Some (errorString ''channel closed'')),
      Channel_Close = None\<rparr>"

definition publisher_of :: "amqp_Channel \<Rightarrow> amqp_Publisher" where
  "publisher_of ch = \<lparr>cfg = None, connection = None, channel = Some ch\<rparr>"

definition sql_Stmt_ok :: sql_Stmt where
  "sql_Stmt_ok =
     \<lparr>sql_Stmt_Close = None,
      sql_Stmt_ExecContext = (\<lambda>ctx args. Inr 1),
      sql_Stmt_QueryContext = (\<lambda>ctx args. Inr 2),
      sql_Stmt_QueryRowContext = (\<lambda>ctx args. 3)\<rparr>"

definition sql_Tx_ok :: sql_Tx where
  "sql_Tx_ok =
     \<lparr>sql_Tx_Commit = None,
      sql_Tx_ExecContext = (\<lambda>ctx q args. Inr 1),
      sql_Tx_PrepareContext = (\<lambda>ctx q. Inr sql_Stmt_ok),
      sql_Tx_QueryContext = (\<lambda>ctx q args. Inr 2),
      sql_Tx_QueryRowContext = (\<lambda>ctx q args. 3),
      sql_Tx_Rollback = None,
      sql_Tx_StmtContext = (\<lambda>ctx s. s)\<rparr>"

definition sql_Conn_ok :: sql_Conn where
  "sql_Conn_ok =
     \<lparr>sql_Conn_BeginTx = (\<lambda>ctx opts. Inr sql_Tx_ok),
      sql_Conn_Close = None,
      sql_Conn_ExecContext = (\<lambda>ctx q args. Inr 1),
      sql_Conn_PingContext = (\<lambda>ctx. None),
      sql_Conn_PrepareContext = (\<lambda>ctx q. Inr sql_Stmt_ok),
      sql_Conn_QueryContext = (\<lambda>ctx q args. Inr 2),
      sql_Conn_QueryRowContext = (\<lambda>ctx q args. 3)\<rparr>"

definition sql_DB_ok :: sql_DB where
  "sql_DB_ok =
     \<lparr>sql_DB_BeginTx = (\<lambda>ctx opts. Inr sql_Tx_ok),
      sql_DB_Close = None,
      sql_DB_Conn = (\<lambda>ctx. Inr sql_Conn_ok),
      sql_DB_Driver = 0,
      sql_DB_ExecContext = (\<lambda>ctx q args. Inr 1),
      sql_DB_PingContext = (\<lambda>ctx. None),
      sql_DB_PrepareContext = (\<lambda>ctx q. Inr sql_Stmt_ok),
      sql_DB_QueryContext = (\<lambda>ctx q args. Inr 2),
      sql_DB_QueryRowContext = (\<lambda>ctx q args. 3),
      sql_DB_Stats = 4\<rparr>"

definition sql_DB_failing :: sql_DB where
  "sql_DB_failing =
     \<lparr>sql_DB_BeginTx = (\<lambda>ctx opts. Inl (errorString ''bad connection'')),
      sql_DB_Close = Some (errorString ''bad connection''),
      sql_DB_Conn = (\<lambda>ctx. Inl (errorString ''bad connection'')),
      sql_DB_Driver = 0,
      sql_DB_ExecContext = (\<lambda>ctx q args. Inl (errorString ''bad connection'')),
      sql_DB_PingContext = (\<lambda>ctx. Some (errorString ''bad connection'')),
      sql_DB_PrepareContext = (\<lambda>ctx q. Inl (errorString ''bad connection'')),
      sql_DB_QueryContext = (\<lambda>ctx q args. Inl (errorString ''bad connection'')),
      sql_DB_QueryRowContext = (\<lambda>ctx q args. 3),
      sql_DB_Stats = 4\<rparr>"

definition db_mydb :: "sql_DB \<Rightarrow> DB" where
  "db_mydb d = \<lparr>instance' = ''mydb'', user = ''user'', db = d\<rparr>"

definition conn_mydb :: Conn where
  "conn_mydb = \<lparr>instance' = ''mydb'', user = ''user'', conn = sql_Conn_ok\<rparr>"

definition tx_mydb :: Tx where
  "tx_mydb = \<lparr>instance' = ''mydb'', user = ''user'', tx = sql_Tx_ok\<rparr>"

section \<open>Properties of parseDSN\<close>

lemma parseDSN_loop_returns:
  "i + length ms \<le> length fs \<Longrightarrow> \<exists>info. parseDSN_loop fs i ms res = Returned info"
  by (induction ms arbitrary: i res) auto

lemma FindStringSubmatch_length:
  "FindStringSubmatch re s = Some ms \<Longrightarrow> length ms = length (SubexpNames re)"
  by (auto simp: FindStringSubmatch_def split: option.splits)

lemma FindStringSubmatch_no_slash: "FindStringSubmatch dsnPattern ''abc'' = None"
  by code_simp

text \<open>
  Claim C7. \<open>parseDSN\<close> applied to \<open>user:pass@tcp(localhost:3306)/mydb?x=1\<close> returns a
  \<open>DSNInfo\<close> with database name \<open>mydb\<close>, user \<open>user\<close>, address \<open>localhost:3306\<close> and
  protocol \<open>tcp\<close> (and an empty driver).
\<close>

theorem parseDSN_scenario:
  "parseDSN ''user:pass@tcp(localhost:3306)/mydb?x=1'' =
     Returned \<lparr>Driver = [], DBName = ''mydb'', Address = ''localhost:3306'', User = ''user'',
               Protocol = ''tcp''\<rparr>"
  by code_simp

text \<open>
  Claim C10. \<open>parseDSN\<close> is total: on every string it returns a \<open>DSNInfo\<close> (the search
  ends, and the index into the group names is never out of range), and when the string
  does not match the pattern every field of the result is the empty string.
\<close>

theorem parseDSN_total:
  "(\<exists>info. parseDSN dsn = Returned info) \<and>
   (FindStringSubmatch dsnPattern dsn = None \<longrightarrow>
      parseDSN dsn = Returned \<lparr>Driver = [], DBName = [], Address = [], User = [], Protocol = []\<rparr>)"
proof (cases "FindStringSubmatch dsnPattern dsn")
  case None
  then show ?thesis by (simp add: parseDSN_def)
next
  case (Some ms)
  then have "length ms = length (SubexpNames dsnPattern)"
    by (rule FindStringSubmatch_length)
  then have "\<exists>info. parseDSN_loop (SubexpNames dsnPattern) 0 ms
               \<lparr>Driver = [], DBName = [], Address = [], User = [], Protocol = []\<rparr> = Returned info"
    by (intro parseDSN_loop_returns) simp
  with Some show ?thesis by (simp add: parseDSN_def)
qed

theorem parseDSN_total_witness:
  "(\<exists>info. parseDSN ''abc'' = Returned info) \<and>
   FindStringSubmatch dsnPattern ''abc'' = None \<and>
   parseDSN ''abc'' = Returned \<lparr>Driver = [], DBName = [], Address = [], User = [], Protocol = []\<rparr>"
  using parseDSN_total [of "''abc''"] FindStringSubmatch_no_slash by simp

section \<open>Properties of the publishers\<close>

lemma map_of_sqsHeadersCarrier_Set:
  "map_of (sqsHeadersCarrier_Set c key val) = (map_of c)(key \<mapsto> IString val)"
  by (simp add: sqsHeadersCarrier_Set_def update_conv')

lemma map_of_carrier:
  "map_of (fold (\<lambda>(key, val) c. sqsHeadersCarrier_Set c key val) sets c0) k =
     (case map_of (rev sets) k of Some v \<Rightarrow> Some (IString v) | None \<Rightarrow> map_of c0 k)"
proof (induction sets arbitrary: c0)
  case Nil
  then show ?case by simp
next
  case (Cons kv sets)
  obtain key val where kv: "kv = (key, val)" by (cases kv)
  show ?case
    by (simp add: kv Cons.IH map_of_sqsHeadersCarrier_Set map_add_def split: option.splits)
qed

lemma distinct_carrier:
  "distinct (map fst c0) \<Longrightarrow>
   distinct (map fst (fold (\<lambda>(key, val) c. sqsHeadersCarrier_Set c key val) sets c0))"
  by (induction sets arbitrary: c0) (auto simp: sqsHeadersCarrier_Set_def distinct_update)

lemma injectHeaders_loop_strings:
  "distinct (map fst c) \<Longrightarrow> (\<And>k v. map_of c k = Some v \<Longrightarrow> \<exists>s. v = IString s) \<Longrightarrow>
   injectHeaders_loop c attrs =
     (Returned (),
      (\<lambda>k. case map_of c k of
              Some (IString s) \<Rightarrow> Some \<lparr>DataType = Some attributeDataTypeString, StringValue = Some s\<rparr>
            | _ \<Rightarrow> attrs k))"
proof (induction c arbitrary: attrs)
  case Nil
  then show ?case by simp
next
  case (Cons kv c)
  obtain k v where kv: "kv = (k, v)" by (cases kv)
  from Cons.prems(2) [of k v] obtain s where v: "v = IString s" by (auto simp: kv)
  have notin: "map_of c k = None"
    using Cons.prems(1) by (simp add: kv map_of_eq_None_iff)
  have rest: "\<And>k' v'. map_of c k' = Some v' \<Longrightarrow> \<exists>s. v' = IString s"
  proof -
    fix k' v' assume h: "map_of c k' = Some v'"
    then have "k' \<noteq> k" using notin by auto
    with h Cons.prems(2) [of k' v'] show "\<exists>s. v' = IString s" by (simp add: kv)
  qed
  have d: "distinct (map fst c)" using Cons.prems(1) by simp
  show ?case
    by (auto simp: kv v Cons.IH [OF d rest] notin fun_eq_iff split: option.split iface.split)
qed

lemma injectHeaders_ok:
  "Inject tr sp = (sets, None) \<Longrightarrow>
   injectHeaders tr sp input =
     (Returned None,
      input\<lparr>MessageAttributes := Some (\<lambda>k. case map_of (rev sets) k of
          Some v \<Rightarrow> Some \<lparr>DataType = Some attributeDataTypeString, StringValue = Some v\<rparr>
        | None \<Rightarrow> (case MessageAttributes input of None \<Rightarrow> None | Some m \<Rightarrow> m k))\<rparr>)"
proof -
  assume inj: "Inject tr sp = (sets, None)"
  let ?c = "fold (\<lambda>(key, val) c. sqsHeadersCarrier_Set c key val) sets []"
  have m: "\<And>k. map_of ?c k = (case map_of (rev sets) k of Some v \<Rightarrow> Some (IString v) | None \<Rightarrow> None)"
    by (simp add: map_of_carrier cong: option.case_cong)
  have d: "distinct (map fst ?c)" by (rule distinct_carrier) simp
  have s: "\<And>k v. map_of ?c k = Some v \<Longrightarrow> \<exists>s. v = IString s"
    by (auto simp: m split: option.splits)
  have loop0: "injectHeaders_loop ?c attrs =
      (Returned (),
       (\<lambda>k. case map_of ?c k of
              Some (IString s) \<Rightarrow> Some \<lparr>DataType = Some attributeDataTypeString, StringValue = Some s\<rparr>
            | _ \<Rightarrow> attrs k))" for attrs
    using d s by (rule injectHeaders_loop_strings)
  have loop: "injectHeaders_loop ?c attrs =
      (Returned (),
       (\<lambda>k. case map_of (rev sets) k of
               Some v \<Rightarrow> Some \<lparr>DataType = Some attributeDataTypeString, StringValue = Some v\<rparr>
             | None \<Rightarrow> attrs k))" for attrs
    unfolding loop0
    by (auto simp: m fun_eq_iff split: option.split)
  show ?thesis
  proof (cases "MessageAttributes input")
    case None
    then show ?thesis
      unfolding injectHeaders_def inj by (simp add: loop cong: option.case_cong)
  next
    case (Some m0)
    then show ?thesis
      unfolding injectHeaders_def inj by (simp add: loop cong: option.case_cong)
  qed
qed

lemma injectHeaders_failed:
  "Inject tr sp = (sets, Some e) \<Longrightarrow>
   injectHeaders tr sp input =
     (Returned (Some (fmt_Errorf_w ''failed to inject tracing headers: '' e)), input)"
  by (simp add: injectHeaders_def)


lemma injectHeaders_returns:
  "\<exists>ierr msg1. injectHeaders tr sp msg = (Returned ierr, msg1)"
proof (cases "Inject tr sp")
  case (Pair sets ierr)
  then show ?thesis
    by (cases ierr) (simp_all add: injectHeaders_ok injectHeaders_failed)
qed

lemma sqs_Publish_steps:
  assumes "QueueUrl msg = Some q" and "api p = Some a"
    and "trace_ChildSpan ctx (trace_ComponentOpName sqs_publisherComponent q)
           sqs_publisherComponent [SpanKindProducer] w = (sp, ctx', w1)"
    and "injectHeaders tr sp msg = (Returned ierr, msg1)"
    and "time_Now (case ierr of Some e \<Rightarrow> log_Errorf ''failed to inject trace headers: '' e w1
                              | None \<Rightarrow> w1) = (start, w3)"
    and "a ctx msg1 = (out, err)"
  shows "sqs_Publish p ctx msg tr w =
     (case err of
        Some e \<Rightarrow> Returned ([], Some (fmt_Errorf_w ''failed to publish message: '' e))
      | None \<Rightarrow>
         (case out of
            None \<Rightarrow> Panicked
          | Some out' \<Rightarrow>
             (case MessageId out' of
                None \<Rightarrow> Returned ([], Some (errors_New
                          ''tried to publish a message but no message ID returned''))
              | Some i \<Rightarrow> Returned (i, None))),
      msg1,
      sqs_observePublish sp start q err (w3\<lparr>sqs_sent := sqs_sent w3 @ [msg1]\<rparr>))"
  using assms by (simp add: sqs_Publish_def split: option.splits)

lemma sqs_sent_before_call:
  "trace_ChildSpan ctx n c tgs w = (sp, ctx', w1) \<Longrightarrow>
   time_Now (case ierr of Some e \<Rightarrow> log_Errorf pre e w1 | None \<Rightarrow> w1) = (start, w3) \<Longrightarrow>
   sqs_sent w3 = sqs_sent w"
  by (auto simp: trace_ChildSpan_def StartSpanFromContext_def time_Now_def log_Errorf_def
           split: option.splits)

lemma sqs_sent_observePublish: "sqs_sent (sqs_observePublish sp start q err w) = sqs_sent w"
  by (simp add: sqs_observePublish_def trace_SpanComplete_def time_Since_def split: option.splits)

lemma amqp_published_before_call:
  "trace_ChildSpan ctx n c tgs w = (sp, ctx', w1) \<Longrightarrow>
   time_Now (case ierr of Some e \<Rightarrow> log_Errorf pre e w1 | None \<Rightarrow> w1) = (start, w3) \<Longrightarrow>
   amqp_published w3 = amqp_published w"
  by (auto simp: trace_ChildSpan_def StartSpanFromContext_def time_Now_def log_Errorf_def
           split: option.splits)

lemma amqp_published_observePublish:
  "amqp_published (amqp_observePublish sp start x err w) = amqp_published w"
  by (simp add: amqp_observePublish_def trace_SpanComplete_def time_Since_def split: option.splits)

lemma fold_amqpHeadersCarrier_Set:
  "fold (\<lambda>(k, v) c. amqpHeadersCarrier_Set c k v) sets h k =
     (case map_of (rev sets) k of Some v \<Rightarrow> Some (IString v) | None \<Rightarrow> h k)"
proof (induction sets arbitrary: h)
  case Nil
  then show ?case by simp
next
  case (Cons kv sets)
  obtain key val where kv: "kv = (key, val)" by (cases kv)
  let ?f = "\<lambda>(k, v) c. amqpHeadersCarrier_Set c k v"
  have "fold ?f (kv # sets) h k = fold ?f sets (amqpHeadersCarrier_Set h key val) k"
    by (simp add: kv)
  also have "\<dots> = (case map_of (rev sets) k of
                      Some v \<Rightarrow> Some (IString v)
                    | None \<Rightarrow> amqpHeadersCarrier_Set h key val k)"
    by (rule Cons.IH)
  also have "\<dots> = (case map_of (rev (kv # sets)) k of Some v \<Rightarrow> Some (IString v) | None \<Rightarrow> h k)"
    by (simp add: kv amqpHeadersCarrier_Set_def map_add_def split: option.splits)
  finally show ?case .
qed

lemma amqp_Publish_steps:
  assumes "channel tc = Some ch"
    and "trace_ChildSpan ctx (trace_ComponentOpName amqp_publisherComponent exchange)
           amqp_publisherComponent [SpanKindProducer, (''exchange'', IString exchange)] w = (sp, ctx', w1)"
    and "Inject tr sp = (sets, ierr)"
    and "time_Now (case ierr of Some e \<Rightarrow> log_Errorf ''failed to inject tracing headers: '' e w1
                              | None \<Rightarrow> w1) = (start, w3)"
    and "m = msg\<lparr>Headers := Some ((fold (\<lambda>(k, v) c. amqpHeadersCarrier_Set c k v) sets
                 (case Headers msg of None \<Rightarrow> Map.empty | Some h \<Rightarrow> h))
                 (HeaderID corr \<mapsto> IString (IDFromContext corr ctx)))\<rparr>"
    and "err = Channel_Publish ch exchange key mandatory immediate m"
  shows "amqp_Publish tc ctx exchange key mandatory immediate msg tr corr w =
     (Returned (map_option (fmt_Errorf_w ''failed to publish message: '') err),
      amqp_observePublish sp start exchange err
        (w3\<lparr>amqp_published := amqp_published w3 @ [(exchange, key, mandatory, immediate, m)]\<rparr>))"
  using assms by (simp add: amqp_Publish_def Let_def split: option.splits)

text \<open>
  Claim C4. When the call of \<open>SendMessageWithContext\<close> returns no error and a response
  whose \<open>MessageId\<close> is nil, \<open>Publish\<close> returns the empty identifier and the error
  "tried to publish a message but no message ID returned", which is not a
  "failed to publish message" wrapping of any error. The publisher has its \<open>api\<close> and
  the request names its queue (or \<open>Publish\<close> panics before it calls anything); \<open>msg'\<close>
  is the request after the call, the one the queue client was handed.
\<close>

theorem sqs_Publish_no_message_id:
  assumes "QueueUrl msg = Some q" and "api p = Some a"
    and "sqs_Publish p ctx msg tr w = (r, msg', w')"
    and "a ctx msg' = (Some out, None)" and "MessageId out = None"
  shows "r = Returned ([], Some (errors_New ''tried to publish a message but no message ID returned'')) \<and>
         (\<forall>e. errors_New ''tried to publish a message but no message ID returned'' \<noteq>
               fmt_Errorf_w ''failed to publish message: '' e)"
proof -
  obtain sp ctx' w1 where sp:
    "trace_ChildSpan ctx (trace_ComponentOpName sqs_publisherComponent q)
       sqs_publisherComponent [SpanKindProducer] w = (sp, ctx', w1)"
    by (metis prod_cases3)
  obtain ierr msg1 where inj: "injectHeaders tr sp msg = (Returned ierr, msg1)"
    using injectHeaders_returns by blast
  obtain start w3 where now:
    "time_Now (case ierr of Some e \<Rightarrow> log_Errorf ''failed to inject trace headers: '' e w1
                          | None \<Rightarrow> w1) = (start, w3)"
    by (metis surj_pair)
  obtain out1 err1 where ans: "a ctx msg1 = (out1, err1)" by (metis surj_pair)
  note steps = sqs_Publish_steps [OF assms(1,2) sp inj now ans]
  from steps assms(3) have "msg' = msg1" by simp
  with ans assms(4) have "out1 = Some out" "err1 = None" by simp_all
  with steps assms(3,5) show ?thesis
    by (simp add: errors_New_def fmt_Errorf_w_def)
qed

theorem sqs_Publish_no_message_id_witness:
  "QueueUrl msg_q1 = Some ''q1'' \<and> api \<lparr>api = Some api_no_id\<rparr> = Some api_no_id \<and>
   api_no_id ctx0 (fst (snd (sqs_Publish \<lparr>api = Some api_no_id\<rparr> ctx0 msg_q1 tracer_ok world0))) =
     (Some \<lparr>MessageId = None\<rparr>, None) \<and>
   fst (sqs_Publish \<lparr>api = Some api_no_id\<rparr> ctx0 msg_q1 tracer_ok world0) =
     Returned ([], Some (errors_New ''tried to publish a message but no message ID returned''))"
  using sqs_Publish_no_message_id [of msg_q1 "''q1''" "\<lparr>api = Some api_no_id\<rparr>" api_no_id ctx0 tracer_ok
      world0 "fst (sqs_Publish \<lparr>api = Some api_no_id\<rparr> ctx0 msg_q1 tracer_ok world0)"
      "fst (snd (sqs_Publish \<lparr>api = Some api_no_id\<rparr> ctx0 msg_q1 tracer_ok world0))"
      "snd (snd (sqs_Publish \<lparr>api = Some api_no_id\<rparr> ctx0 msg_q1 tracer_ok world0))"
      "\<lparr>MessageId = None\<rparr>"]
  by (simp add: msg_q1_def api_no_id_def)


text \<open>
  Claim C5. When \<open>Inject\<close> returns an error, \<open>Publish\<close> still calls the underlying
  client exactly once, and what it returns is decided by the answer of that call alone:
  for SQS the request is handed over unchanged and the result is the identifier, the
  wrapped error of the call, or the missing-identifier error; for AMQP the message is
  published and the result is the wrapped error of the channel, or nil. The injection
  error appears in neither.
\<close>

theorem publish_survives_injection_failure:
  "(QueueUrl msg = Some q \<longrightarrow> api p = Some a \<longrightarrow>
      snd (Inject tr (fst (trace_ChildSpan ctx (trace_ComponentOpName sqs_publisherComponent q)
                             sqs_publisherComponent [SpanKindProducer] w))) = Some ierr \<longrightarrow>
      (\<exists>w'. sqs_Publish p ctx msg tr w =
               (case a ctx msg of
                  (out, Some e) \<Rightarrow> Returned ([], Some (fmt_Errorf_w ''failed to publish message: '' e))
                | (None, None) \<Rightarrow> Panicked
                | (Some out, None) \<Rightarrow>
                    (case MessageId out of
                       None \<Rightarrow> Returned ([], Some (errors_New
                                 ''tried to publish a message but no message ID returned''))
                     | Some i \<Rightarrow> Returned (i, None)),
                msg, w') \<and>
             sqs_sent w' = sqs_sent w @ [msg])) \<and>
   (channel tc = Some ch \<longrightarrow>
      snd (Inject tr (fst (trace_ChildSpan ctx (trace_ComponentOpName amqp_publisherComponent exchange)
                             amqp_publisherComponent
                             [SpanKindProducer, (''exchange'', IString exchange)] w))) = Some ierr \<longrightarrow>
      (\<exists>m w'. amqp_Publish tc ctx exchange key mandatory immediate pmsg tr corr w =
                 (Returned (map_option (fmt_Errorf_w ''failed to publish message: '')
                              (Channel_Publish ch exchange key mandatory immediate m)), w') \<and>
               Body m = Body pmsg \<and>
               amqp_published w' = amqp_published w @ [(exchange, key, mandatory, immediate, m)]))"
proof (intro conjI impI)
  assume q: "QueueUrl msg = Some q" and a: "api p = Some a"
    and fails: "snd (Inject tr (fst (trace_ChildSpan ctx
                  (trace_ComponentOpName sqs_publisherComponent q)
                  sqs_publisherComponent [SpanKindProducer] w))) = Some ierr"
  obtain sp ctx' w1 where sp:
    "trace_ChildSpan ctx (trace_ComponentOpName sqs_publisherComponent q)
       sqs_publisherComponent [SpanKindProducer] w = (sp, ctx', w1)"
    by (metis prod_cases3)
  from fails sp obtain sets where "Inject tr sp = (sets, Some ierr)"
    by (cases "Inject tr sp") simp
  then have inj: "injectHeaders tr sp msg =
      (Returned (Some (fmt_Errorf_w ''failed to inject tracing headers: '' ierr)), msg)"
    by (rule injectHeaders_failed)
  obtain start w3 where now:
    "time_Now (case Some (fmt_Errorf_w ''failed to inject tracing headers: '' ierr) of
                 Some e \<Rightarrow> log_Errorf ''failed to inject trace headers: '' e w1
               | None \<Rightarrow> w1) = (start, w3)"
    by (metis surj_pair)
  obtain out err where ans: "a ctx msg = (out, err)" by (metis surj_pair)
  note steps = sqs_Publish_steps [OF q a sp inj now ans]
  have sent: "sqs_sent w3 = sqs_sent w"
    using sp now by (rule sqs_sent_before_call)
  show "\<exists>w'. sqs_Publish p ctx msg tr w =
               (case a ctx msg of
                  (out, Some e) \<Rightarrow> Returned ([], Some (fmt_Errorf_w ''failed to publish message: '' e))
                | (None, None) \<Rightarrow> Panicked
                | (Some out, None) \<Rightarrow>
                    (case MessageId out of
                       None \<Rightarrow> Returned ([], Some (errors_New
                                 ''tried to publish a message but no message ID returned''))
                     | Some i \<Rightarrow> Returned (i, None)),
                msg, w') \<and>
             sqs_sent w' = sqs_sent w @ [msg]"
    unfolding steps ans
    by (cases err; cases out) (simp_all add: sqs_sent_observePublish sent)
next
  assume ch: "channel tc = Some ch"
    and fails: "snd (Inject tr (fst (trace_ChildSpan ctx
                  (trace_ComponentOpName amqp_publisherComponent exchange) amqp_publisherComponent
                  [SpanKindProducer, (''exchange'', IString exchange)] w))) = Some ierr"
  obtain sp ctx' w1 where sp:
    "trace_ChildSpan ctx (trace_ComponentOpName amqp_publisherComponent exchange)
       amqp_publisherComponent [SpanKindProducer, (''exchange'', IString exchange)] w = (sp, ctx', w1)"
    by (metis prod_cases3)
  from fails sp obtain sets where inj: "Inject tr sp = (sets, Some ierr)"
    by (cases "Inject tr sp") simp
  obtain start w3 where now:
    "time_Now (case Some ierr of
                 Some e \<Rightarrow> log_Errorf ''failed to inject tracing headers: '' e w1
               | None \<Rightarrow> w1) = (start, w3)"
    by (metis surj_pair)
  define m where "m = pmsg\<lparr>Headers := Some ((fold (\<lambda>(k, v) c. amqpHeadersCarrier_Set c k v) sets
                 (case Headers pmsg of None \<Rightarrow> Map.empty | Some h \<Rightarrow> h))
                 (HeaderID corr \<mapsto> IString (IDFromContext corr ctx)))\<rparr>"
  note steps = amqp_Publish_steps [OF ch sp inj now m_def refl]
  have pub: "amqp_published w3 = amqp_published w"
    using sp now by (rule amqp_published_before_call)
  have "Body m = Body pmsg" by (simp add: m_def)
  then show "\<exists>m w'. amqp_Publish tc ctx exchange key mandatory immediate pmsg tr corr w =
                 (Returned (map_option (fmt_Errorf_w ''failed to publish message: '')
                              (Channel_Publish ch exchange key mandatory immediate m)), w') \<and>
               Body m = Body pmsg \<and>
               amqp_published w' = amqp_published w @ [(exchange, key, mandatory, immediate, m)]"
    unfolding steps by (intro exI [of _ m]) (simp add: amqp_published_observePublish pub)
qed

theorem publish_survives_injection_failure_witness:
  "QueueUrl msg_q1 = Some ''q1'' \<and> api \<lparr>api = Some api_ok\<rparr> = Some api_ok \<and>
   snd (Inject tracer_failing (fst (trace_ChildSpan ctx0
          (trace_ComponentOpName sqs_publisherComponent ''q1'')
          sqs_publisherComponent [SpanKindProducer] world0))) = Some (errorString ''unsupported format'') \<and>
   (\<exists>w'. sqs_Publish \<lparr>api = Some api_ok\<rparr> ctx0 msg_q1 tracer_failing world0 =
            (Returned (''abc-123'', None), msg_q1, w') \<and>
          sqs_sent w' = [msg_q1]) \<and>
   channel (publisher_of channel_failing) = Some channel_failing \<and>
   snd (Inject tracer_failing (fst (trace_ChildSpan ctx0
          (trace_ComponentOpName amqp_publisherComponent ''orders'') amqp_publisherComponent
          [SpanKindProducer, (''exchange'', IString ''orders'')] world0))) =
     Some (errorString ''unsupported format'') \<and>
   (\<exists>m w'. amqp_Publish (publisher_of channel_failing) ctx0 ''orders'' ''k'' False False publishing0
              tracer_failing correlation0 world0 =
              (Returned (Some (fmt_Errorf_w ''failed to publish message: '' (errorString ''channel closed''))),
               w') \<and>
            Body m = ''hello'' \<and>
            amqp_published w' = [(''orders'', ''k'', False, False, m)])"
  using publish_survives_injection_failure [of msg_q1 "''q1''" "\<lparr>api = Some api_ok\<rparr>" api_ok
      tracer_failing ctx0 world0 "errorString ''unsupported format''" "publisher_of channel_failing"
      channel_failing "''orders''" "''k''" False False publishing0 correlation0]
  by (simp add: msg_q1_def api_ok_def tracer_failing_def publisher_of_def channel_failing_def
        world0_def publishing0_def)

text \<open>
  Claim C9. Whenever the SQS \<open>Publish\<close> returns a non-nil error, the message identifier
  it returns is the empty string; a non-empty identifier comes only with a nil error.
\<close>

theorem sqs_Publish_error_empty_id:
  "sqs_Publish p ctx msg tr w = (Returned (messageID, err), msg', w') \<Longrightarrow>
   (err \<noteq> None \<longrightarrow> messageID = []) \<and> (messageID \<noteq> [] \<longrightarrow> err = None)"
  by (auto simp: sqs_Publish_def Let_def split: option.splits prod.splits outcome.splits)

theorem sqs_Publish_error_empty_id_witness:
  "sqs_Publish \<lparr>api = Some api_failing\<rparr> ctx0 msg_q1 tracer_ok world0 =
     (Returned ([], Some (fmt_Errorf_w ''failed to publish message: '' (errorString ''queue does not exist''))),
      fst (snd (sqs_Publish \<lparr>api = Some api_failing\<rparr> ctx0 msg_q1 tracer_ok world0)),
      snd (snd (sqs_Publish \<lparr>api = Some api_failing\<rparr> ctx0 msg_q1 tracer_ok world0))) \<and>
   Some (fmt_Errorf_w ''failed to publish message: '' (errorString ''queue does not exist'')) \<noteq> None"
  using sqs_Publish_error_empty_id [of "\<lparr>api = Some api_failing\<rparr>" ctx0 msg_q1 tracer_ok world0 "[]"
      "Some (fmt_Errorf_w ''failed to publish message: '' (errorString ''queue does not exist''))"
      "fst (snd (sqs_Publish \<lparr>api = Some api_failing\<rparr> ctx0 msg_q1 tracer_ok world0))"
      "snd (snd (sqs_Publish \<lparr>api = Some api_failing\<rparr> ctx0 msg_q1 tracer_ok world0))"]
  by (simp add: sqs_Publish_def msg_q1_def api_failing_def injectHeaders_def tracer_ok_def
        sqsHeadersCarrier_Set_def
        trace_ChildSpan_def StartSpanFromContext_def time_Now_def Let_def)

text \<open>
  Claim C6, as stated, fails for the AMQP publisher: \<open>Publish\<close> writes the correlation
  header after the injection, over whatever the tracer set under that key. Here the tracer
  sets the correlation header's key to \<open>from-tracer\<close> and returns no error, and the message
  handed to the channel carries the correlation identifier of the context instead.
\<close>

theorem correlation_header_overwrites_injected_pair:
  "Inject tracer_colliding
     (fst (trace_ChildSpan ctx0 (trace_ComponentOpName amqp_publisherComponent ''orders'')
             amqp_publisherComponent [SpanKindProducer, (''exchange'', IString ''orders'')] world0)) =
     ([(''X-Correlation-Id'', ''from-tracer'')], None) \<and>
   amqp_published (snd (amqp_Publish (publisher_of channel_ok) ctx0 ''orders'' ''k'' False False
                          publishing0 tracer_colliding correlation0 world0)) =
     [(''orders'', ''k'', False, False,
       \<lparr>Headers = Some [''X-Correlation-Id'' \<mapsto> IString ''cid-1''], Body = ''hello''\<rparr>)]"
  by (simp add: amqp_Publish_def tracer_colliding_def publisher_of_def correlation0_def ctx0_def
        world0_def publishing0_def trace_ChildSpan_def StartSpanFromContext_def time_Now_def
        amqpHeadersCarrier_Set_def amqp_observePublish_def trace_SpanComplete_def time_Since_def
        channel_ok_def Let_def)

text \<open>
  Claim C6, amended. When \<open>Inject\<close> returns no error, the message handed to the underlying
  client holds every key of the carrier with the value last set under it (\<open>sets\<close> are the
  tracer's \<open>Set\<close> calls in order): for SQS as an attribute of data type \<open>String\<close>, in
  an attribute map that exists after the call, for AMQP as a header, except under the key
  of the correlation header, which holds the correlation identifier. Every attribute or
  header under another key is kept with its value.
\<close>

theorem injected_pairs_in_outgoing_message:
  "(QueueUrl msg = Some q \<longrightarrow> api p = Some a \<longrightarrow>
      Inject tr (fst (trace_ChildSpan ctx (trace_ComponentOpName sqs_publisherComponent q)
                        sqs_publisherComponent [SpanKindProducer] w)) = (sets, None) \<longrightarrow>
      (\<exists>r attrs w'.
          sqs_Publish p ctx msg tr w = (r, msg\<lparr>MessageAttributes := Some attrs\<rparr>, w') \<and>
          sqs_sent w' = sqs_sent w @ [msg\<lparr>MessageAttributes := Some attrs\<rparr>] \<and>
          (\<forall>k v. map_of (rev sets) k = Some v \<longrightarrow>
                 attrs k = Some \<lparr>DataType = Some ''String'', StringValue = Some v\<rparr>) \<and>
          (\<forall>k. map_of (rev sets) k = None \<longrightarrow>
               attrs k = (case MessageAttributes msg of None \<Rightarrow> None | Some old \<Rightarrow> old k)))) \<and>
   (channel tc = Some ch \<longrightarrow>
      Inject tr (fst (trace_ChildSpan ctx (trace_ComponentOpName amqp_publisherComponent exchange)
                        amqp_publisherComponent
                        [SpanKindProducer, (''exchange'', IString exchange)] w)) = (sets, None) \<longrightarrow>
      (\<exists>r h w'.
          amqp_Publish tc ctx exchange key mandatory immediate pmsg tr corr w = (r, w') \<and>
          amqp_published w' =
            amqp_published w @ [(exchange, key, mandatory, immediate, pmsg\<lparr>Headers := Some h\<rparr>)] \<and>
          (\<forall>k v. map_of (rev sets) k = Some v \<longrightarrow> k \<noteq> HeaderID corr \<longrightarrow> h k = Some (IString v)) \<and>
          h (HeaderID corr) = Some (IString (IDFromContext corr ctx)) \<and>
          (\<forall>k. map_of (rev sets) k = None \<longrightarrow> k \<noteq> HeaderID corr \<longrightarrow>
               h k = (case Headers pmsg of None \<Rightarrow> None | Some old \<Rightarrow> old k))))"
proof (intro conjI impI)
  assume q: "QueueUrl msg = Some q" and a: "api p = Some a"
    and ok: "Inject tr (fst (trace_ChildSpan ctx (trace_ComponentOpName sqs_publisherComponent q)
                        sqs_publisherComponent [SpanKindProducer] w)) = (sets, None)"
  obtain sp ctx' w1 where sp:
    "trace_ChildSpan ctx (trace_ComponentOpName sqs_publisherComponent q)
       sqs_publisherComponent [SpanKindProducer] w = (sp, ctx', w1)"
    by (metis prod_cases3)
  define attrs where "attrs = (\<lambda>k. case map_of (rev sets) k of
          Some v \<Rightarrow> Some \<lparr>DataType = Some attributeDataTypeString, StringValue = Some v\<rparr>
        | None \<Rightarrow> (case MessageAttributes msg of None \<Rightarrow> None | Some m \<Rightarrow> m k))"
  from ok sp have "Inject tr sp = (sets, None)" by simp
  then have inj: "injectHeaders tr sp msg = (Returned None, msg\<lparr>MessageAttributes := Some attrs\<rparr>)"
    unfolding attrs_def by (rule injectHeaders_ok)
  obtain start w3 where now:
    "time_Now (case None of Some e \<Rightarrow> log_Errorf ''failed to inject trace headers: '' e w1
                          | None \<Rightarrow> w1) = (start, w3)"
    by (metis surj_pair)
  obtain out err where ans: "a ctx (msg\<lparr>MessageAttributes := Some attrs\<rparr>) = (out, err)"
    by (metis surj_pair)
  note steps = sqs_Publish_steps [OF q a sp inj now ans]
  have sent: "sqs_sent w3 = sqs_sent w"
    using sp now by (rule sqs_sent_before_call)
  show "\<exists>r attrs w'.
          sqs_Publish p ctx msg tr w = (r, msg\<lparr>MessageAttributes := Some attrs\<rparr>, w') \<and>
          sqs_sent w' = sqs_sent w @ [msg\<lparr>MessageAttributes := Some attrs\<rparr>] \<and>
          (\<forall>k v. map_of (rev sets) k = Some v \<longrightarrow>
                 attrs k = Some \<lparr>DataType = Some ''String'', StringValue = Some v\<rparr>) \<and>
          (\<forall>k. map_of (rev sets) k = None \<longrightarrow>
               attrs k = (case MessageAttributes msg of None \<Rightarrow> None | Some old \<Rightarrow> old k))"
  proof (intro exI conjI)
    show "sqs_Publish p ctx msg tr w =
        (case err of
           Some e \<Rightarrow> Returned ([], Some (fmt_Errorf_w ''failed to publish message: '' e))
         | None \<Rightarrow>
            (case out of
               None \<Rightarrow> Panicked
             | Some out' \<Rightarrow>
                (case MessageId out' of
                   None \<Rightarrow> Returned ([], Some (errors_New
                             ''tried to publish a message but no message ID returned''))
                 | Some i \<Rightarrow> Returned (i, None))),
         msg\<lparr>MessageAttributes := Some attrs\<rparr>,
         sqs_observePublish sp start q err
           (w3\<lparr>sqs_sent := sqs_sent w3 @ [msg\<lparr>MessageAttributes := Some attrs\<rparr>]\<rparr>))"
      by (rule steps)
    show "sqs_sent (sqs_observePublish sp start q err
             (w3\<lparr>sqs_sent := sqs_sent w3 @ [msg\<lparr>MessageAttributes := Some attrs\<rparr>]\<rparr>)) =
          sqs_sent w @ [msg\<lparr>MessageAttributes := Some attrs\<rparr>]"
      by (simp add: sqs_sent_observePublish sent)
    show "\<forall>k v. map_of (rev sets) k = Some v \<longrightarrow>
                 attrs k = Some \<lparr>DataType = Some ''String'', StringValue = Some v\<rparr>"
      by (simp add: attrs_def attributeDataTypeString_def)
    show "\<forall>k. map_of (rev sets) k = None \<longrightarrow>
               attrs k = (case MessageAttributes msg of None \<Rightarrow> None | Some old \<Rightarrow> old k)"
      by (simp add: attrs_def)
  qed
next
  assume ch: "channel tc = Some ch"
    and ok: "Inject tr (fst (trace_ChildSpan ctx (trace_ComponentOpName amqp_publisherComponent exchange)
                        amqp_publisherComponent
                        [SpanKindProducer, (''exchange'', IString exchange)] w)) = (sets, None)"
  obtain sp ctx' w1 where sp:
    "trace_ChildSpan ctx (trace_ComponentOpName amqp_publisherComponent exchange)
       amqp_publisherComponent [SpanKindProducer, (''exchange'', IString exchange)] w = (sp, ctx', w1)"
    by (metis prod_cases3)
  from ok sp have inj: "Inject tr sp = (sets, None)" by simp
  obtain start w3 where now:
    "time_Now (case None of
                 Some e \<Rightarrow> log_Errorf ''failed to inject tracing headers: '' e w1
               | None \<Rightarrow> w1) = (start, w3)"
    by (metis surj_pair)
  define c where "c = fold (\<lambda>(k, v) c. amqpHeadersCarrier_Set c k v) sets
                 (case Headers pmsg of None \<Rightarrow> Map.empty | Some h \<Rightarrow> h)"
  define h where "h = c(HeaderID corr \<mapsto> IString (IDFromContext corr ctx))"
  have m: "pmsg\<lparr>Headers := Some h\<rparr> =
      pmsg\<lparr>Headers := Some ((fold (\<lambda>(k, v) c. amqpHeadersCarrier_Set c k v) sets
                 (case Headers pmsg of None \<Rightarrow> Map.empty | Some h \<Rightarrow> h))
                 (HeaderID corr \<mapsto> IString (IDFromContext corr ctx)))\<rparr>"
    by (simp add: h_def c_def)
  note steps = amqp_Publish_steps [OF ch sp inj now m refl]
  have pub: "amqp_published w3 = amqp_published w"
    using sp now by (rule amqp_published_before_call)
  have c: "c k = (case map_of (rev sets) k of
                    Some v \<Rightarrow> Some (IString v)
                  | None \<Rightarrow> (case Headers pmsg of None \<Rightarrow> Map.empty | Some h \<Rightarrow> h) k)" for k
    unfolding c_def by (rule fold_amqpHeadersCarrier_Set)
  show "\<exists>r h w'.
          amqp_Publish tc ctx exchange key mandatory immediate pmsg tr corr w = (r, w') \<and>
          amqp_published w' =
            amqp_published w @ [(exchange, key, mandatory, immediate, pmsg\<lparr>Headers := Some h\<rparr>)] \<and>
          (\<forall>k v. map_of (rev sets) k = Some v \<longrightarrow> k \<noteq> HeaderID corr \<longrightarrow> h k = Some (IString v)) \<and>
          h (HeaderID corr) = Some (IString (IDFromContext corr ctx)) \<and>
          (\<forall>k. map_of (rev sets) k = None \<longrightarrow> k \<noteq> HeaderID corr \<longrightarrow>
               h k = (case Headers pmsg of None \<Rightarrow> None | Some old \<Rightarrow> old k))"
  proof (intro exI conjI)
    show "amqp_Publish tc ctx exchange key mandatory immediate pmsg tr corr w =
        (Returned (map_option (fmt_Errorf_w ''failed to publish message: '')
                     (Channel_Publish ch exchange key mandatory immediate (pmsg\<lparr>Headers := Some h\<rparr>))),
         amqp_observePublish sp start exchange
           (Channel_Publish ch exchange key mandatory immediate (pmsg\<lparr>Headers := Some h\<rparr>))
           (w3\<lparr>amqp_published := amqp_published w3 @
                 [(exchange, key, mandatory, immediate, pmsg\<lparr>Headers := Some h\<rparr>)]\<rparr>))"
      by (rule steps)
    show "amqp_published (amqp_observePublish sp start exchange
             (Channel_Publish ch exchange key mandatory immediate (pmsg\<lparr>Headers := Some h\<rparr>))
             (w3\<lparr>amqp_published := amqp_published w3 @
                   [(exchange, key, mandatory, immediate, pmsg\<lparr>Headers := Some h\<rparr>)]\<rparr>)) =
          amqp_published w @ [(exchange, key, mandatory, immediate, pmsg\<lparr>Headers := Some h\<rparr>)]"
      by (simp add: amqp_published_observePublish pub)
    show "\<forall>k v. map_of (rev sets) k = Some v \<longrightarrow> k \<noteq> HeaderID corr \<longrightarrow> h k = Some (IString v)"
      by (simp add: h_def c)
    show "h (HeaderID corr) = Some (IString (IDFromContext corr ctx))"
      by (simp add: h_def)
    show "\<forall>k. map_of (rev sets) k = None \<longrightarrow> k \<noteq> HeaderID corr \<longrightarrow>
               h k = (case Headers pmsg of None \<Rightarrow> None | Some old \<Rightarrow> old k)"
      by (simp add: h_def c split: option.splits)
  qed
qed

theorem injected_pairs_in_outgoing_message_witness:
  "QueueUrl msg_q1 = Some ''q1'' \<and> api \<lparr>api = Some api_ok\<rparr> = Some api_ok \<and>
   Inject tracer_ok (fst (trace_ChildSpan ctx0 (trace_ComponentOpName sqs_publisherComponent ''q1'')
                            sqs_publisherComponent [SpanKindProducer] world0)) =
     ([(''trace-id'', ''1:2:3:1'')], None) \<and>
   (\<exists>r attrs w'.
       sqs_Publish \<lparr>api = Some api_ok\<rparr> ctx0 msg_q1 tracer_ok world0 =
         (r, msg_q1\<lparr>MessageAttributes := Some attrs\<rparr>, w') \<and>
       sqs_sent w' = sqs_sent world0 @ [msg_q1\<lparr>MessageAttributes := Some attrs\<rparr>] \<and>
       attrs ''trace-id'' = Some \<lparr>DataType = Some ''String'', StringValue = Some ''1:2:3:1''\<rparr>) \<and>
   channel (publisher_of channel_ok) = Some channel_ok \<and>
   Inject tracer_ok (fst (trace_ChildSpan ctx0 (trace_ComponentOpName amqp_publisherComponent ''orders'')
                            amqp_publisherComponent
                            [SpanKindProducer, (''exchange'', IString ''orders'')] world0)) =
     ([(''trace-id'', ''1:2:3:1'')], None) \<and>
   (\<exists>r h w'.
       amqp_Publish (publisher_of channel_ok) ctx0 ''orders'' ''k'' False False publishing0 tracer_ok
         correlation0 world0 = (r, w') \<and>
       amqp_published w' =
         amqp_published world0 @ [(''orders'', ''k'', False, False, publishing0\<lparr>Headers := Some h\<rparr>)] \<and>
       h ''trace-id'' = Some (IString ''1:2:3:1'') \<and>
       h (HeaderID correlation0) = Some (IString (IDFromContext correlation0 ctx0)))"
proof -
  have h1: "QueueUrl msg_q1 = Some ''q1''" by (simp add: msg_q1_def)
  have h2: "api \<lparr>api = Some api_ok\<rparr> = Some api_ok" by simp
  have h3: "Inject tracer_ok sp = ([(''trace-id'', ''1:2:3:1'')], None)" for sp
    by (simp add: tracer_ok_def)
  have h4: "channel (publisher_of channel_ok) = Some channel_ok" by (simp add: publisher_of_def)
  have k1: "map_of (rev [(''trace-id'', ''1:2:3:1'')]) ''trace-id'' = Some ''1:2:3:1''"
    by simp
  have k2: "''trace-id'' \<noteq> HeaderID correlation0" by (simp add: correlation0_def)
  note inst = injected_pairs_in_outgoing_message [of msg_q1 "''q1''" "\<lparr>api = Some api_ok\<rparr>" api_ok
      tracer_ok ctx0 world0 "[(''trace-id'', ''1:2:3:1'')]" "publisher_of channel_ok" channel_ok
      "''orders''" "''k''" False False publishing0 correlation0]
  have A: "\<exists>r attrs w'.
      sqs_Publish \<lparr>api = Some api_ok\<rparr> ctx0 msg_q1 tracer_ok world0 =
           (r, msg_q1\<lparr>MessageAttributes := Some attrs\<rparr>, w') \<and>
      sqs_sent w' = sqs_sent world0 @ [msg_q1\<lparr>MessageAttributes := Some attrs\<rparr>] \<and>
      (\<forall>k v. map_of (rev [(''trace-id'', ''1:2:3:1'')]) k = Some v \<longrightarrow>
                 attrs k = Some \<lparr>DataType = Some ''String'', StringValue = Some v\<rparr>) \<and>
      (\<forall>k. map_of (rev [(''trace-id'', ''1:2:3:1'')]) k = None \<longrightarrow>
               attrs k = (case MessageAttributes msg_q1 of None \<Rightarrow> None | Some old \<Rightarrow> old k))"
    by (rule mp [OF mp [OF mp [OF conjunct1 [OF inst] h1] h2] h3])
  then obtain r attrs w' where
    s1: "sqs_Publish \<lparr>api = Some api_ok\<rparr> ctx0 msg_q1 tracer_ok world0 =
           (r, msg_q1\<lparr>MessageAttributes := Some attrs\<rparr>, w')" and
    s2: "sqs_sent w' = sqs_sent world0 @ [msg_q1\<lparr>MessageAttributes := Some attrs\<rparr>]" and
    s3: "\<forall>k v. map_of (rev [(''trace-id'', ''1:2:3:1'')]) k = Some v \<longrightarrow>
                 attrs k = Some \<lparr>DataType = Some ''String'', StringValue = Some v\<rparr>"
    by (elim exE conjE)
  from s3 k1 have s4: "attrs ''trace-id'' = Some \<lparr>DataType = Some ''String'', StringValue = Some ''1:2:3:1''\<rparr>"
    by blast
  have B: "\<exists>r h w'.
      amqp_Publish (publisher_of channel_ok) ctx0 ''orders'' ''k'' False False publishing0 tracer_ok
           correlation0 world0 = (r, w') \<and>
      amqp_published w' =
           amqp_published world0 @ [(''orders'', ''k'', False, False, publishing0\<lparr>Headers := Some h\<rparr>)] \<and>
      (\<forall>k v. map_of (rev [(''trace-id'', ''1:2:3:1'')]) k = Some v \<longrightarrow> k \<noteq> HeaderID correlation0 \<longrightarrow>
               h k = Some (IString v)) \<and>
      h (HeaderID correlation0) = Some (IString (IDFromContext correlation0 ctx0)) \<and>
      (\<forall>k. map_of (rev [(''trace-id'', ''1:2:3:1'')]) k = None \<longrightarrow> k \<noteq> HeaderID correlation0 \<longrightarrow>
               h k = (case Headers publishing0 of None \<Rightarrow> None | Some old \<Rightarrow> old k))"
    by (rule mp [OF mp [OF conjunct2 [OF inst] h4] h3])
  then obtain r' h w'' where
    a1: "amqp_Publish (publisher_of channel_ok) ctx0 ''orders'' ''k'' False False publishing0 tracer_ok
           correlation0 world0 = (r', w'')" and
    a2: "amqp_published w'' =
           amqp_published world0 @ [(''orders'', ''k'', False, False, publishing0\<lparr>Headers := Some h\<rparr>)]" and
    a3: "\<forall>k v. map_of (rev [(''trace-id'', ''1:2:3:1'')]) k = Some v \<longrightarrow> k \<noteq> HeaderID correlation0 \<longrightarrow>
               h k = Some (IString v)" and
    a4: "h (HeaderID correlation0) = Some (IString (IDFromContext correlation0 ctx0))"
    by (elim exE conjE)
  from a3 k1 k2 have a5: "h ''trace-id'' = Some (IString ''1:2:3:1'')" by blast
  have S: "\<exists>r attrs w'.
       sqs_Publish \<lparr>api = Some api_ok\<rparr> ctx0 msg_q1 tracer_ok world0 =
         (r, msg_q1\<lparr>MessageAttributes := Some attrs\<rparr>, w') \<and>
       sqs_sent w' = sqs_sent world0 @ [msg_q1\<lparr>MessageAttributes := Some attrs\<rparr>] \<and>
       attrs ''trace-id'' = Some \<lparr>DataType = Some ''String'', StringValue = Some ''1:2:3:1''\<rparr>"
    using s1 s2 s4 by (intro exI conjI)
  have P: "\<exists>r h w'.
       amqp_Publish (publisher_of channel_ok) ctx0 ''orders'' ''k'' False False publishing0 tracer_ok
         correlation0 world0 = (r, w') \<and>
       amqp_published w' =
         amqp_published world0 @ [(''orders'', ''k'', False, False, publishing0\<lparr>Headers := Some h\<rparr>)] \<and>
       h ''trace-id'' = Some (IString ''1:2:3:1'') \<and>
       h (HeaderID correlation0) = Some (IString (IDFromContext correlation0 ctx0))"
    using a1 a2 a5 a4 by (intro exI conjI)
  show ?thesis
    using h1 h2 h3 h4 S P by (intro conjI)

qed

end
